theory Spec2Isabelle
  imports Complex_Main
begin

section \<open>Python values and the primitives the module uses\<close>

text \<open>
  The module \<^verbatim>\<open>instrumentator.py\<close> is duck-typed: the views it derives from a
  request or a response are whatever \<^verbatim>\<open>json.loads\<close>, the keyword arguments of a
  handler or a parameter set hold. The model fixes one universe of values: the JSON
  values of Python (\<^verbatim>\<open>None\<close>, \<^verbatim>\<open>bool\<close>, \<^verbatim>\<open>int\<close>, \<^verbatim>\<open>float\<close>, \<^verbatim>\<open>str\<close>,
  \<^verbatim>\<open>list\<close>, \<^verbatim>\<open>dict\<close> with string keys) and instances of a data class, which carry
  named attributes (the feedback object whose \<^verbatim>\<open>correctness\<close> and
  \<^verbatim>\<open>corrected_value\<close> attributes \<^verbatim>\<open>count_false_binary_feedback\<close> reads).

  \<^item> A \<^verbatim>\<open>dict\<close> is an association list in insertion order; Python keeps its keys
    distinct. Lookups read the first binding of a key.
  \<^item> A finite \<^verbatim>\<open>float\<close> is given by the rational number it denotes, so that order
    and equality of numbers are exact, as Python's are across \<^verbatim>\<open>int\<close> and
    \<^verbatim>\<open>float\<close>. Infinities and NaN are outside the universe.
  \<^item> A data class instance is neither iterable nor subscriptable nor ordered, and two
    instances are equal when their attributes are.

  Every exception the module can meet is a value of \<open>exn\<close>; a computation that may
  raise returns \<open>exn + 'a\<close>, with \<open>Inl\<close> for the exception.
\<close>

datatype exn =
    TypeError
  | KeyError
  | IndexError
  | AttributeError
  | NameError
  | ValueError
  | JSONDecodeError
  | Exception string

datatype pyval =
    PNone
  | PBool bool
  | PInt int
  | PFloat rat
  | PStr string
  | PList "pyval list"
  | PDict "(string \<times> pyval) list"
  | PObj "(string \<times> pyval) list"

text \<open>
  \<^verbatim>\<open>seq[i]\<close> on a list or a string: an index from \<open>0\<close> counts from the front, a
  negative one from the back, anything else raises \<^verbatim>\<open>IndexError\<close>.
\<close>

definition seq_index :: "'a list \<Rightarrow> int \<Rightarrow> exn + 'a" where
  "seq_index xs i =
     (if 0 \<le> i \<and> i < int (length xs) then Inr (xs ! nat i)
      else if i < 0 \<and> - int (length xs) \<le> i then Inr (xs ! nat (int (length xs) + i))
      else Inl IndexError)"

text \<open>
  \<^verbatim>\<open>for ikey in obj\<close>: a dict enumerates its keys, a list its elements, a string its
  characters (as strings of length one); nothing else in the universe is iterable.
\<close>

fun py_iter :: "pyval \<Rightarrow> exn + pyval list" where
  "py_iter (PDict kvs) = Inr (map (\<lambda>kv. PStr (fst kv)) kvs)"
| "py_iter (PList xs) = Inr xs"
| "py_iter (PStr s) = Inr (map (\<lambda>c. PStr [c]) s)"
| "py_iter _ = Inl TypeError"

text \<open>
  \<^verbatim>\<open>obj[index]\<close>. A dict raises \<^verbatim>\<open>KeyError\<close> for a hashable index it does not hold
  (its keys are strings) and \<^verbatim>\<open>TypeError\<close> for an unhashable one; a list and a string
  take an \<^verbatim>\<open>int\<close> (a \<^verbatim>\<open>bool\<close> is one: \<^verbatim>\<open>False\<close> is 0, \<^verbatim>\<open>True\<close> is 1) and raise
  \<^verbatim>\<open>TypeError\<close> for any other index; no other value is subscriptable.
\<close>

fun py_getitem :: "pyval \<Rightarrow> pyval \<Rightarrow> exn + pyval" where
  "py_getitem (PDict kvs) (PStr k) =
     (case map_of kvs k of None \<Rightarrow> Inl KeyError | Some v \<Rightarrow> Inr v)"
| "py_getitem (PDict kvs) (PList _) = Inl TypeError"
| "py_getitem (PDict kvs) (PDict _) = Inl TypeError"
| "py_getitem (PDict kvs) (PObj _) = Inl TypeError"
| "py_getitem (PDict kvs) _ = Inl KeyError"
| "py_getitem (PList xs) (PInt i) = seq_index xs i"
| "py_getitem (PList xs) (PBool b) = seq_index xs (if b then 1 else 0)"
| "py_getitem (PList xs) _ = Inl TypeError"
| "py_getitem (PStr s) (PInt i) =
     (case seq_index s i of Inl e \<Rightarrow> Inl e | Inr c \<Rightarrow> Inr (PStr [c]))"
| "py_getitem (PStr s) (PBool b) =
     (case seq_index s (if b then 1 else 0) of Inl e \<Rightarrow> Inl e | Inr c \<Rightarrow> Inr (PStr [c]))"
| "py_getitem (PStr s) _ = Inl TypeError"
| "py_getitem _ _ = Inl TypeError"

text \<open>\<^verbatim>\<open>obj.name\<close>: only a data class instance has attributes of its own.\<close>

fun py_getattr :: "pyval \<Rightarrow> string \<Rightarrow> exn + pyval" where
  "py_getattr (PObj attrs) name =
     (case map_of attrs name of None \<Rightarrow> Inl AttributeError | Some v \<Rightarrow> Inr v)"
| "py_getattr _ name = Inl AttributeError"

text \<open>
  Numbers: \<^verbatim>\<open>bool\<close>, \<^verbatim>\<open>int\<close> and \<^verbatim>\<open>float\<close> compare with each other by value
  (\<^verbatim>\<open>True == 1 == 1.0\<close>).
\<close>

fun num_of :: "pyval \<Rightarrow> rat option" where
  "num_of (PBool b) = Some (if b then 1 else 0)"
| "num_of (PInt i) = Some (of_int i)"
| "num_of (PFloat r) = Some r"
| "num_of _ = None"

text \<open>
  \<^verbatim>\<open>a == b\<close>: numbers by value, strings by content, lists element by element, dicts
  and data class instances binding by binding; values of different kinds are unequal.
\<close>

fun py_eq :: "pyval \<Rightarrow> pyval \<Rightarrow> bool"
  and py_eq_list :: "pyval list \<Rightarrow> pyval list \<Rightarrow> bool"
  and py_eq_items :: "(string \<times> pyval) list \<Rightarrow> (string \<times> pyval) list \<Rightarrow> bool" where
  "py_eq PNone PNone = True"
| "py_eq (PStr a) (PStr b) = (a = b)"
| "py_eq (PList a) (PList b) = py_eq_list a b"
| "py_eq (PDict a) (PDict b) = (length a = length b \<and> py_eq_items a b)"
| "py_eq (PObj a) (PObj b) = (length a = length b \<and> py_eq_items a b)"
| "py_eq a b = (case (num_of a, num_of b) of (Some x, Some y) \<Rightarrow> x = y | _ \<Rightarrow> False)"
| "py_eq_list [] [] = True"
| "py_eq_list (x # xs) (y # ys) = (py_eq x y \<and> py_eq_list xs ys)"
| "py_eq_list _ _ = False"
| "py_eq_items [] b = True"
| "py_eq_items (kv # a) b =
     (case map_of b (fst kv) of
        None \<Rightarrow> False
      | Some w \<Rightarrow> py_eq (snd kv) w \<and> py_eq_items a b)"

text \<open>
  \<^verbatim>\<open>a > b\<close>: numbers by value, strings and lists lexicographically (a list at the
  first pair of unequal elements); every other pair of operands raises \<^verbatim>\<open>TypeError\<close>,
  in particular a comparison with \<^verbatim>\<open>None\<close>. \<^verbatim>\<open>a < b\<close> is \<^verbatim>\<open>b > a\<close>.
\<close>

fun str_gt :: "string \<Rightarrow> string \<Rightarrow> bool" where
  "str_gt [] t = False"
| "str_gt (c # s) [] = True"
| "str_gt (c # s) (d # t) = (if c = d then str_gt s t else (of_char d :: nat) < of_char c)"

fun py_gt :: "pyval \<Rightarrow> pyval \<Rightarrow> exn + bool"
  and py_gt_list :: "pyval list \<Rightarrow> pyval list \<Rightarrow> exn + bool" where
  "py_gt (PStr a) (PStr b) = Inr (str_gt a b)"
| "py_gt (PList a) (PList b) = py_gt_list a b"
| "py_gt a b = (case (num_of a, num_of b) of (Some x, Some y) \<Rightarrow> Inr (y < x) | _ \<Rightarrow> Inl TypeError)"
| "py_gt_list [] ys = Inr False"
| "py_gt_list (x # xs) [] = Inr True"
| "py_gt_list (x # xs) (y # ys) = (if py_eq x y then py_gt_list xs ys else py_gt x y)"

definition py_lt :: "pyval \<Rightarrow> pyval \<Rightarrow> exn + bool" where
  "py_lt a b = py_gt b a"

section \<open>Structured search: \<^verbatim>\<open>search_json\<close>\<close>

text \<open>
  \<^verbatim>\<open>
  def search_json(key, json_obj):
      try:
          for ikey in json_obj:
              if ikey == key:
                  return json_obj[key]
              res = search_json(key, json_obj[ikey])
              if not res is None:
                  return res
          return None
      except:
          return None
  \<close>
  The key is a field name, a string, so \<^verbatim>\<open>ikey == key\<close> holds exactly when the
  enumerated item is that string. \<open>search_loop\<close> is the body of the \<^verbatim>\<open>for\<close> loop over
  the items still to enumerate, and may raise; \<open>search_json\<close> is the function with its
  \<^verbatim>\<open>try\<close> ... \<^verbatim>\<open>except\<close>, which turns every exception of the iteration, of an
  indexing and of the loop into \<^verbatim>\<open>None\<close>. The interpreter's recursion limit is not
  modelled.
\<close>

fun is_PStr :: "pyval \<Rightarrow> bool" where
  "is_PStr (PStr _) = True"
| "is_PStr _ = False"

definition loop_weight :: "pyval \<Rightarrow> pyval list \<Rightarrow> nat" where
  "loop_weight obj items = (if is_PStr obj \<and> \<not> list_all is_PStr items then 1 else size obj)"

lemma seq_index_mem: "seq_index xs i = Inr x \<Longrightarrow> x \<in> set xs"
  by (auto simp: seq_index_def split: if_splits)

lemma size_elem: "x \<in> set xs \<Longrightarrow> size x < Suc (size_list size xs)"
  by (induction xs) auto

lemma size_bound_value:
  "(k, v) \<in> set kvs \<Longrightarrow> size v < Suc (size_list (size_prod (\<lambda>_. 0) size) kvs)"
  by (induction kvs) auto

lemma getitem_smaller:
  "py_getitem obj ikey = Inr child \<Longrightarrow> \<not> is_PStr obj \<Longrightarrow> size child < size obj"
  by (cases obj; cases ikey)
    (auto split: option.splits if_splits
      dest!: seq_index_mem map_of_SomeD size_elem size_bound_value)

lemma getitem_str:
  "py_getitem (PStr s) ikey = Inr child \<Longrightarrow> \<not> is_PStr ikey \<and> size child = 0"
  by (cases ikey) (auto split: sum.splits)

function search_json :: "string \<Rightarrow> pyval \<Rightarrow> exn + pyval"
  and search_loop :: "string \<Rightarrow> pyval \<Rightarrow> pyval list \<Rightarrow> exn + pyval" where
  "search_json key json_obj =
     (case py_iter json_obj of
        Inl e \<Rightarrow> Inr PNone
      | Inr items \<Rightarrow>
          (case search_loop key json_obj items of
             Inl e \<Rightarrow> Inr PNone
           | Inr v \<Rightarrow> Inr v))"
| "search_loop key json_obj [] = Inr PNone"
| "search_loop key json_obj (ikey # rest) =
     (if ikey = PStr key then py_getitem json_obj (PStr key)
      else (case py_getitem json_obj ikey of
              Inl e \<Rightarrow> Inl e
            | Inr child \<Rightarrow>
                (case search_json key child of
                   Inl e \<Rightarrow> Inl e
                 | Inr res \<Rightarrow>
                     if res \<noteq> PNone then Inr res else search_loop key json_obj rest)))"
  by pat_completeness auto
termination
proof (relation "inv_image (less_than <*lex*> less_than <*lex*> less_than)
     (\<lambda>x. case x of
        Inl (key, obj) \<Rightarrow> (size obj, 1::nat, 0::nat)
      | Inr (key, obj, items) \<Rightarrow> (loop_weight obj items, 0, length items))",
    goal_cases)
  case 1
  show ?case by (intro wf_inv_image wf_lex_prod wf_less_than)
next
  case (2 key json_obj items)
  then show ?case
    by (cases json_obj) (auto simp: loop_weight_def list_all_iff)
next
  case (3 key json_obj ikey rest child)
  then show ?case
    by (cases "is_PStr json_obj")
      (auto simp: loop_weight_def dest: getitem_smaller getitem_str elim: is_PStr.elims)
next
  case (4 key json_obj ikey rest child res)
  then show ?case
    by (cases json_obj) (auto simp: loop_weight_def)
qed

declare search_json.simps [simp del]

text \<open>
  The values a container binds to a key anywhere inside it: in the dict itself, in the
  values of a dict and in the elements of a list, to any depth. They are what a search
  can find.
\<close>

fun bindings :: "string \<Rightarrow> pyval \<Rightarrow> pyval list"
  and bindings_list :: "string \<Rightarrow> pyval list \<Rightarrow> pyval list"
  and bindings_items :: "string \<Rightarrow> (string \<times> pyval) list \<Rightarrow> pyval list" where
  "bindings key (PDict kvs) = bindings_items key kvs"
| "bindings key (PList xs) = bindings_list key xs"
| "bindings key _ = []"
| "bindings_list key [] = []"
| "bindings_list key (x # xs) = bindings key x @ bindings_list key xs"
| "bindings_items key [] = []"
| "bindings_items key (kv # kvs) =
     (if fst kv = key then [snd kv] else []) @ bindings key (snd kv) @ bindings_items key kvs"

section \<open>View adapters\<close>

text \<open>
  Flask's \<^verbatim>\<open>request\<close> is read through three attributes: \<^verbatim>\<open>method\<close>, \<^verbatim>\<open>args\<close>
  (the query parameters) and \<^verbatim>\<open>values\<close>. A parameter set is a multi-dict, here the
  list of its (name, value) pairs in order, a name possibly more than once;
  \<^verbatim>\<open>values\<close> combines \<^verbatim>\<open>args\<close> with \<^verbatim>\<open>form\<close> (the body parameters), \<^verbatim>\<open>args\<close>
  first. \<^verbatim>\<open>keys()\<close> lists every name once and \<^verbatim>\<open>get(key)\<close> is the first value of the
  name, or \<^verbatim>\<open>None\<close>. (Werkzeug enumerates the names of the combined set in no
  particular order; the model enumerates them by first occurrence.)
\<close>

type_synonym kwargs = "(string \<times> pyval) list"

record flask_request =
  req_method :: string
  req_args :: "(string \<times> string) list"
  req_form :: "(string \<times> string) list"

definition request_values :: "flask_request \<Rightarrow> (string \<times> string) list" where
  "request_values request = req_args request @ req_form request"

fun multi_keys :: "(string \<times> string) list \<Rightarrow> string list" where
  "multi_keys [] = []"
| "multi_keys (kv # rest) = fst kv # filter (\<lambda>k. k \<noteq> fst kv) (multi_keys rest)"

definition multi_get :: "(string \<times> string) list \<Rightarrow> string \<Rightarrow> pyval" where
  "multi_get params key = (case map_of params key of None \<Rightarrow> PNone | Some v \<Rightarrow> PStr v)"

text \<open>\<^verbatim>\<open>d[k] = v\<close> on a dict: an existing key keeps its place, a new one is added last.\<close>

fun dict_set :: "(string \<times> 'a) list \<Rightarrow> string \<Rightarrow> 'a \<Rightarrow> (string \<times> 'a) list" where
  "dict_set [] k v = [(k, v)]"
| "dict_set (kv # d) k v = (if fst kv = k then (k, v) # d else kv # dict_set d k v)"

definition dict_get :: "(string \<times> 'a) list \<Rightarrow> string \<Rightarrow> exn + 'a" where
  "dict_get d k = (case map_of d k of None \<Rightarrow> Inl KeyError | Some v \<Rightarrow> Inr v)"

text \<open>
  \<^verbatim>\<open>
  def transform_request_to_json_flask(request, **kwargs):
      if len(kwargs.keys()):
          return kwargs
      res = dict()
      if request.method == 'POST':
          params = request.values
      else:
          params = request.args
      for key in params.keys():
          res[key] = params.get(key)
      return res
  \<close>
  \<open>fill_res\<close> is the \<^verbatim>\<open>for\<close> loop.
\<close>

fun fill_res :: "(string \<times> string) list \<Rightarrow> string list \<Rightarrow> kwargs \<Rightarrow> kwargs" where
  "fill_res params [] res = res"
| "fill_res params (key # keys) res = fill_res params keys (dict_set res key (multi_get params key))"

definition transform_request_to_json_flask :: "flask_request \<Rightarrow> kwargs \<Rightarrow> pyval" where
  "transform_request_to_json_flask request kwargs =
     (if length kwargs \<noteq> 0 then PDict kwargs
      else (let params = (if req_method request = ''POST'' then request_values request
                          else req_args request)
            in PDict (fill_res params (multi_keys params) [])))"

definition transform_request_to_json_fastapi :: "flask_request \<Rightarrow> kwargs \<Rightarrow> pyval" where
  "transform_request_to_json_fastapi request kwargs = PDict kwargs"

text \<open>
  What a handler returns is either a plain value or a response object of the framework
  (Werkzeug's or Starlette's \<^verbatim>\<open>Response\<close>), given by the text of its body.
  \<^verbatim>\<open>json.loads\<close> is not part of the repository: the adapters take it as a parameter.
  A plain value has no method \<^verbatim>\<open>get_data\<close> and no attribute \<^verbatim>\<open>body\<close> holding bytes,
  so reading either raises.
  \<^verbatim>\<open>
  def transform_response_to_json_flask(resp_obj):
      txt_resp = resp_obj.get_data(as_text=True)
      return json.loads(txt_resp)

  def transform_response_to_json_fastapi(resp_obj):
      if isinstance(resp_obj, dict):
          return resp_obj
      else:
          body = resp_obj.body.decode()
          return json.loads(body)
  \<close>
\<close>

datatype resp_obj = Plain pyval | Response string

fun transform_response_to_json_flask :: "(string \<Rightarrow> exn + pyval) \<Rightarrow> resp_obj \<Rightarrow> exn + pyval" where
  "transform_response_to_json_flask loads (Response body) = loads body"
| "transform_response_to_json_flask loads (Plain v) =
     (case py_getattr v ''get_data'' of Inl e \<Rightarrow> Inl e | Inr m \<Rightarrow> Inl TypeError)"

fun transform_response_to_json_fastapi :: "(string \<Rightarrow> exn + pyval) \<Rightarrow> resp_obj \<Rightarrow> exn + pyval" where
  "transform_response_to_json_fastapi loads (Plain (PDict d)) = Inr (PDict d)"
| "transform_response_to_json_fastapi loads (Response body) = loads body"
| "transform_response_to_json_fastapi loads (Plain v) =
     (case py_getattr v ''body'' of
        Inl e \<Rightarrow> Inl e
      | Inr b \<Rightarrow> (case py_getattr b ''decode'' of Inl e \<Rightarrow> Inl e | Inr m \<Rightarrow> Inl TypeError))"

section \<open>The instrumentation facade\<close>

text \<open>
  What the module takes from its surroundings: the module-level name \<^verbatim>\<open>request\<close>
  (bound by \<^verbatim>\<open>from flask import request\<close>, unbound when Flask cannot be imported),
  the builtin \<^verbatim>\<open>str\<close>, \<^verbatim>\<open>json.loads\<close>, and the exception with which the metric
  backend refuses a value it is asked to record, if it refuses it: \<^verbatim>\<open>Gauge.set\<close>
  converts its argument with \<^verbatim>\<open>float\<close> (a \<^verbatim>\<open>TypeError\<close> for \<^verbatim>\<open>None\<close>, a
  \<^verbatim>\<open>ValueError\<close> for a string that is no number), \<^verbatim>\<open>Histogram.observe\<close> adds its
  argument to a float (a \<^verbatim>\<open>TypeError\<close> for every string).
\<close>

record env =
  request_global :: "flask_request option"
  builtin_str :: "pyval \<Rightarrow> string"
  json_loads :: "string \<Rightarrow> exn + pyval"
  set_refuses :: "pyval \<Rightarrow> exn option"
  observe_refuses :: "pyval \<Rightarrow> exn option"

text \<open>
  \<^verbatim>\<open>Instrumentation.__init__\<close> selects the adapter pair by the class name of the app
  and raises for any other class; the instance is given by the pair it selected.
  (The route \<^verbatim>\<open>/metrics\<close> it registers belongs to the framework.)
\<close>

datatype app_kind = Flask | FastAPI

definition Instrumentation_init :: "string \<Rightarrow> exn + app_kind" where
  "Instrumentation_init class_name =
     (if class_name = ''Flask'' then Inr Flask
      else if class_name = ''FastAPI'' then Inr FastAPI
      else Inl (Exception (''The instrumentation does not support the app of type:'' @ class_name)))"

text \<open>
  \<^verbatim>\<open>self.transform_request(request, **kwargs)\<close>, as every request-side wrapper calls
  it: evaluating the name \<^verbatim>\<open>request\<close> raises \<^verbatim>\<open>NameError\<close> when it is unbound, and
  the call raises \<^verbatim>\<open>TypeError\<close> when a keyword argument of the handler is itself named
  \<^verbatim>\<open>request\<close> (the adapter would get that parameter twice).
\<close>

definition transform_request :: "app_kind \<Rightarrow> env \<Rightarrow> kwargs \<Rightarrow> exn + pyval" where
  "transform_request self env kwargs =
     (case request_global env of
        None \<Rightarrow> Inl NameError
      | Some request \<Rightarrow>
          if ''request'' \<in> set (map fst kwargs) then Inl TypeError
          else Inr (case self of
                      Flask \<Rightarrow> transform_request_to_json_flask request kwargs
                    | FastAPI \<Rightarrow> transform_request_to_json_fastapi request kwargs))"

definition transform_response :: "app_kind \<Rightarrow> env \<Rightarrow> resp_obj \<Rightarrow> exn + pyval" where
  "transform_response self env resp_obj =
     (case self of
        Flask \<Rightarrow> transform_response_to_json_flask (json_loads env) resp_obj
      | FastAPI \<Rightarrow> transform_response_to_json_fastapi (json_loads env) resp_obj)"

section \<open>The metric backend\<close>

text \<open>
  \<^verbatim>\<open>prometheus_client\<close> is a collaborator outside the repository. The model keeps what
  the module's calls do to it: the metrics registered so far (a second metric of a
  registered name is refused with \<^verbatim>\<open>ValueError\<close>), how often each counter was
  incremented, the argument each gauge was last set with, and the arguments each
  histogram observed. A metric object is given by its name. \<^verbatim>\<open>inc\<close> always
  succeeds; \<^verbatim>\<open>set\<close> and \<^verbatim>\<open>observe\<close> raise, and record nothing, when the backend
  refuses their argument.
\<close>

type_synonym metric = string

datatype metric_kind = CounterKind | GaugeKind | HistogramKind pyval

record registry =
  registered :: "(string \<times> string \<times> metric_kind) list"
  counter_value :: "string \<Rightarrow> nat"
  gauge_value :: "string \<Rightarrow> pyval option"
  observations :: "string \<Rightarrow> pyval list"

type_synonym 'a outcome = "(exn + 'a) \<times> registry"

definition new_metric :: "metric_kind \<Rightarrow> string \<Rightarrow> string \<Rightarrow> registry \<Rightarrow> metric outcome" where
  "new_metric kind name doc reg =
     (if name \<in> set (map fst (registered reg)) then (Inl ValueError, reg)
      else (Inr name, reg\<lparr>registered := registered reg @ [(name, doc, kind)]\<rparr>))"

definition Counter :: "string \<Rightarrow> string \<Rightarrow> registry \<Rightarrow> metric outcome" where
  "Counter name doc = new_metric CounterKind name doc"

definition Gauge :: "string \<Rightarrow> string \<Rightarrow> registry \<Rightarrow> metric outcome" where
  "Gauge name doc = new_metric GaugeKind name doc"

definition Histogram :: "string \<Rightarrow> string \<Rightarrow> pyval \<Rightarrow> registry \<Rightarrow> metric outcome" where
  "Histogram name doc buckets = new_metric (HistogramKind buckets) name doc"

definition Counter_inc :: "metric \<Rightarrow> registry \<Rightarrow> registry" where
  "Counter_inc m reg = reg\<lparr>counter_value := (counter_value reg)(m := counter_value reg m + 1)\<rparr>"

definition Gauge_set :: "env \<Rightarrow> metric \<Rightarrow> pyval \<Rightarrow> registry \<Rightarrow> unit outcome" where
  "Gauge_set env m v reg =
     (case set_refuses env v of
        Some e \<Rightarrow> (Inl e, reg)
      | None \<Rightarrow> (Inr (), reg\<lparr>gauge_value := (gauge_value reg)(m := Some v)\<rparr>))"

definition Histogram_observe :: "env \<Rightarrow> metric \<Rightarrow> pyval \<Rightarrow> registry \<Rightarrow> unit outcome" where
  "Histogram_observe env m v reg =
     (case observe_refuses env v of
        Some e \<Rightarrow> (Inl e, reg)
      | None \<Rightarrow>
          (Inr (), reg\<lparr>observations := (observations reg)(m := observations reg m @ [v])\<rparr>))"

text \<open>
  Sequencing. \<open>or_raise r reg k\<close> continues with the value of \<open>r\<close>, or raises its
  exception with the registry as it stands; \<open>and_then\<close> does the same for a step that
  changes the registry; \<open>then_return\<close> ends a wrapper after its loop.
\<close>

definition or_raise :: "exn + 'a \<Rightarrow> registry \<Rightarrow> ('a \<Rightarrow> 'b outcome) \<Rightarrow> 'b outcome" where
  "or_raise r reg k = (case r of Inl e \<Rightarrow> (Inl e, reg) | Inr x \<Rightarrow> k x)"

definition and_then :: "'a outcome \<Rightarrow> ('a \<Rightarrow> registry \<Rightarrow> 'b outcome) \<Rightarrow> 'b outcome" where
  "and_then m k = (case fst m of Inl e \<Rightarrow> (Inl e, snd m) | Inr x \<Rightarrow> k x (snd m))"

definition then_return :: "unit outcome \<Rightarrow> 'a \<Rightarrow> 'a outcome" where
  "then_return m x = (case fst m of Inl e \<Rightarrow> (Inl e, snd m) | Inr u \<Rightarrow> (Inr x, snd m))"

section \<open>Decorators\<close>

text \<open>
  A decorator is the closure a factory method returns: the metric objects the factory
  created and the keys it was given. Each constructor lists the variables its
  \<^verbatim>\<open>wrapper\<close> reads, in the order of the comments.
\<close>

type_synonym handler = "pyval list \<Rightarrow> kwargs \<Rightarrow> exn + resp_obj"

datatype decorator =
    CountFalseBinaryFeedback metric metric string "string option"
      \<comment> \<open>\<^verbatim>\<open>fp_counter\<close>, \<^verbatim>\<open>fn_counter\<close>, \<^verbatim>\<open>feedback_key\<close>, \<^verbatim>\<open>threshold_key\<close>\<close>
  | CountFeature "(string \<times> metric) list" string "pyval list"
      \<comment> \<open>\<^verbatim>\<open>counters\<close>, \<^verbatim>\<open>feature\<close>, \<^verbatim>\<open>values\<close>\<close>
  | GaugeFeature "(string \<times> metric) list" "string list"
      \<comment> \<open>\<^verbatim>\<open>gauges\<close>, \<^verbatim>\<open>feature_keys\<close>\<close>
  | HistFeature "(string \<times> metric) list" "string list"
      \<comment> \<open>\<^verbatim>\<open>hists\<close>, \<^verbatim>\<open>feature_keys\<close>\<close>
  | CountBinary metric metric string "string option"
      \<comment> \<open>\<^verbatim>\<open>positive_cls\<close>, \<^verbatim>\<open>negative_cls\<close>, \<^verbatim>\<open>result_key\<close>, \<^verbatim>\<open>threshold_key\<close>\<close>
  | CountClasses "(string \<times> metric) list" "string option" "string list"
      \<comment> \<open>\<^verbatim>\<open>counters\<close>, \<^verbatim>\<open>threshold_key\<close>, the keys of \<^verbatim>\<open>class_keys\<close>\<close>
  | GaugeOutput "(string \<times> metric) list" "string list"
      \<comment> \<open>\<^verbatim>\<open>gauges\<close>, \<^verbatim>\<open>value_keys\<close>\<close>
  | HistOutput "(string \<times> metric) list" "string list"
      \<comment> \<open>\<^verbatim>\<open>hists\<close>, \<^verbatim>\<open>value_keys\<close>\<close>
  | HistOutputSpecific "(string \<times> metric) list" "string list"
      \<comment> \<open>\<^verbatim>\<open>hists\<close>, the keys of \<^verbatim>\<open>buckets\<close>\<close>

subsection \<open>The factory methods\<close>

text \<open>
  Every factory with a dict of metrics fills it in one loop,
  \<^verbatim>\<open>for x in xs: d[key(x)] = Metric(name(x), ...)\<close>; \<open>make_metrics\<close> is that loop, with
  the key and the constructor call of the factory as parameters. The parameter
  \<^verbatim>\<open>id\<close> of the factories is written \<open>ident\<close>.
\<close>

fun make_metrics ::
  "('a \<Rightarrow> string) \<Rightarrow> ('a \<Rightarrow> registry \<Rightarrow> metric outcome) \<Rightarrow> 'a list \<Rightarrow>
   (string \<times> metric) list \<Rightarrow> registry \<Rightarrow> ((string \<times> metric) list) outcome" where
  "make_metrics keyf ctor [] d reg = (Inr d, reg)"
| "make_metrics keyf ctor (x # xs) d reg =
     and_then (ctor x reg) (\<lambda>m reg'. make_metrics keyf ctor xs (dict_set d (keyf x) m) reg')"

definition count_false_binary_feedback ::
  "string \<Rightarrow> string \<Rightarrow> string option \<Rightarrow> registry \<Rightarrow> decorator outcome" where
  "count_false_binary_feedback ident feedback_key threshold_key reg =
     and_then (Counter (ident @ ''_fp'') (''Counter for false positive:'' @ ident) reg) (\<lambda>fp_counter reg.
     and_then (Counter (ident @ ''_fn'') (''Counter for false negative:'' @ ident) reg) (\<lambda>fn_counter reg.
       (Inr (CountFalseBinaryFeedback fp_counter fn_counter feedback_key threshold_key), reg)))"

definition count_feature ::
  "env \<Rightarrow> string \<Rightarrow> string \<Rightarrow> pyval list \<Rightarrow> registry \<Rightarrow> decorator outcome" where
  "count_feature env ident feature values reg =
     and_then
       (make_metrics (\<lambda>val. feature @ ''_'' @ builtin_str env val)
          (\<lambda>val. Counter (ident @ ''_'' @ feature @ ''_'' @ builtin_str env val)
                    (''Counter for feature and value:'' @ feature @ ''_'' @ builtin_str env val))
          values [] reg)
       (\<lambda>counters reg. (Inr (CountFeature counters feature values), reg))"

definition gauge_feature :: "string \<Rightarrow> string list \<Rightarrow> registry \<Rightarrow> decorator outcome" where
  "gauge_feature ident feature_keys reg =
     and_then
       (make_metrics (\<lambda>feature. feature)
          (\<lambda>feature. Gauge (ident @ ''_'' @ feature) (''Gauge metric for feature:'' @ feature))
          feature_keys [] reg)
       (\<lambda>gauges reg. (Inr (GaugeFeature gauges feature_keys), reg))"

definition hist_feature :: "string \<Rightarrow> pyval \<Rightarrow> string list \<Rightarrow> registry \<Rightarrow> decorator outcome" where
  "hist_feature ident buckets feature_keys reg =
     and_then
       (make_metrics (\<lambda>feature. feature)
          (\<lambda>feature. Histogram (ident @ ''_'' @ feature) (''Histogram for feature:'' @ feature) buckets)
          feature_keys [] reg)
       (\<lambda>hists reg. (Inr (HistFeature hists feature_keys), reg))"

definition count_binary ::
  "string \<Rightarrow> string \<Rightarrow> string option \<Rightarrow> registry \<Rightarrow> decorator outcome" where
  "count_binary ident result_key threshold_key reg =
     and_then (Counter (ident @ ''_pos'') (''Counter metric for the positive class of:'' @ ident) reg)
       (\<lambda>positive_cls reg.
     and_then (Counter (ident @ ''_neg'') (''Counter metric for the negative class of:'' @ ident) reg)
       (\<lambda>negative_cls reg.
       (Inr (CountBinary positive_cls negative_cls result_key threshold_key), reg)))"

definition count_classes ::
  "string \<Rightarrow> string option \<Rightarrow> kwargs \<Rightarrow> registry \<Rightarrow> decorator outcome" where
  "count_classes ident threshold_key class_keys reg =
     and_then
       (make_metrics (\<lambda>cls. cls)
          (\<lambda>cls. Counter (ident @ ''_'' @ cls) (''Counter metric for the class:'' @ cls))
          (map fst class_keys) [] reg)
       (\<lambda>counters reg. (Inr (CountClasses counters threshold_key (map fst class_keys)), reg))"

definition gauge_output :: "string \<Rightarrow> string list \<Rightarrow> registry \<Rightarrow> decorator outcome" where
  "gauge_output ident value_keys reg =
     and_then
       (make_metrics (\<lambda>key. key)
          (\<lambda>key. Gauge (ident @ ''_'' @ key) (''Gauge metric for:'' @ key))
          value_keys [] reg)
       (\<lambda>gauges reg. (Inr (GaugeOutput gauges value_keys), reg))"

definition hist_output :: "string \<Rightarrow> pyval \<Rightarrow> string list \<Rightarrow> registry \<Rightarrow> decorator outcome" where
  "hist_output ident buckets value_keys reg =
     and_then
       (make_metrics (\<lambda>key. key)
          (\<lambda>key. Histogram (ident @ ''_'' @ key) (''Histogram for:'' @ key) buckets)
          value_keys [] reg)
       (\<lambda>hists reg. (Inr (HistOutput hists value_keys), reg))"

definition hist_output_specific :: "string \<Rightarrow> kwargs \<Rightarrow> registry \<Rightarrow> decorator outcome" where
  "hist_output_specific ident buckets reg =
     and_then
       (make_metrics fst
          (\<lambda>kv. Histogram (ident @ ''_'' @ fst kv) (''Histogram for:'' @ fst kv) (snd kv))
          buckets [] reg)
       (\<lambda>hists reg. (Inr (HistOutputSpecific hists (map fst buckets)), reg))"

subsection \<open>The wrappers\<close>

text \<open>
  \<^verbatim>\<open>if threshold_key: threshold = search_json(threshold_key, view)\<close>,
  \<^verbatim>\<open>else: threshold = 0.5\<close>, as the three threshold policies have it. The test is
  Python's truth test: \<^verbatim>\<open>None\<close> and the empty string are false.
\<close>

fun threshold_of :: "string option \<Rightarrow> pyval \<Rightarrow> exn + pyval" where
  "threshold_of None view = Inr (PFloat (1 / 2))"
| "threshold_of (Some threshold_key) view =
     (if threshold_key \<noteq> [] then search_json threshold_key view else Inr (PFloat (1 / 2)))"

text \<open>
  The \<^verbatim>\<open>for\<close> loops of the wrappers, each over the keys still to visit. A loop that
  raises leaves the registry as the updates before the exception made it.
  \<^verbatim>\<open>
  for val in values:                                 # count_feature
      if request_json[feature] == val:
          counters[feature+'_'+str(val)].inc()
          break
  for feature in feature_keys:                       # gauge_feature
      gauges[feature].set(request_json[feature])
  for feature in feature_keys:                       # hist_feature
      hists[feature].observe(request_json[feature])
  for cls in class_keys:                             # count_classes
      value = search_json(cls, resp_json)
      if not value is None:
          if value > threshold:
              counters[cls].inc()
  for key in value_keys:                             # gauge_output
      value = search_json(key, resp_json)
      if not value is None:
          gauges[key].set(value)
  for key in value_keys:                             # hist_output, hist_output_specific
      value = search_json(key, resp_json)
      if not value is None:
          hists[key].observe(value)
  \<close>
  In \<^verbatim>\<open>gauges[feature].set(request_json[feature])\<close> the metric is looked up before the
  argument is evaluated, and the argument before the backend sees it.
\<close>

fun count_feature_loop ::
  "env \<Rightarrow> (string \<times> metric) list \<Rightarrow> string \<Rightarrow> pyval \<Rightarrow> pyval list \<Rightarrow> registry \<Rightarrow> unit outcome" where
  "count_feature_loop env counters feature request_json [] reg = (Inr (), reg)"
| "count_feature_loop env counters feature request_json (val # rest) reg =
     or_raise (py_getitem request_json (PStr feature)) reg (\<lambda>x.
       if py_eq x val then
         or_raise (dict_get counters (feature @ ''_'' @ builtin_str env val)) reg (\<lambda>c.
           (Inr (), Counter_inc c reg))
       else count_feature_loop env counters feature request_json rest reg)"

fun gauge_feature_loop ::
  "env \<Rightarrow> (string \<times> metric) list \<Rightarrow> pyval \<Rightarrow> string list \<Rightarrow> registry \<Rightarrow> unit outcome" where
  "gauge_feature_loop env gauges request_json [] reg = (Inr (), reg)"
| "gauge_feature_loop env gauges request_json (feature # rest) reg =
     or_raise (dict_get gauges feature) reg (\<lambda>g.
     or_raise (py_getitem request_json (PStr feature)) reg (\<lambda>v.
     and_then (Gauge_set env g v reg) (\<lambda>u reg'.
       gauge_feature_loop env gauges request_json rest reg')))"

fun hist_feature_loop ::
  "env \<Rightarrow> (string \<times> metric) list \<Rightarrow> pyval \<Rightarrow> string list \<Rightarrow> registry \<Rightarrow> unit outcome" where
  "hist_feature_loop env hists request_json [] reg = (Inr (), reg)"
| "hist_feature_loop env hists request_json (feature # rest) reg =
     or_raise (dict_get hists feature) reg (\<lambda>h.
     or_raise (py_getitem request_json (PStr feature)) reg (\<lambda>v.
     and_then (Histogram_observe env h v reg) (\<lambda>u reg'.
       hist_feature_loop env hists request_json rest reg')))"

fun count_classes_loop ::
  "(string \<times> metric) list \<Rightarrow> pyval \<Rightarrow> pyval \<Rightarrow> string list \<Rightarrow> registry \<Rightarrow> unit outcome" where
  "count_classes_loop counters threshold resp_json [] reg = (Inr (), reg)"
| "count_classes_loop counters threshold resp_json (cls # rest) reg =
     or_raise (search_json cls resp_json) reg (\<lambda>value.
       if value \<noteq> PNone then
         or_raise (py_gt value threshold) reg (\<lambda>above.
           if above then
             or_raise (dict_get counters cls) reg (\<lambda>c.
               count_classes_loop counters threshold resp_json rest (Counter_inc c reg))
           else count_classes_loop counters threshold resp_json rest reg)
       else count_classes_loop counters threshold resp_json rest reg)"

fun gauge_output_loop ::
  "env \<Rightarrow> (string \<times> metric) list \<Rightarrow> pyval \<Rightarrow> string list \<Rightarrow> registry \<Rightarrow> unit outcome" where
  "gauge_output_loop env gauges resp_json [] reg = (Inr (), reg)"
| "gauge_output_loop env gauges resp_json (key # rest) reg =
     or_raise (search_json key resp_json) reg (\<lambda>value.
       if value \<noteq> PNone then
         or_raise (dict_get gauges key) reg (\<lambda>g.
         and_then (Gauge_set env g value reg) (\<lambda>u reg'.
           gauge_output_loop env gauges resp_json rest reg'))
       else gauge_output_loop env gauges resp_json rest reg)"

fun hist_output_loop ::
  "env \<Rightarrow> (string \<times> metric) list \<Rightarrow> pyval \<Rightarrow> string list \<Rightarrow> registry \<Rightarrow> unit outcome" where
  "hist_output_loop env hists resp_json [] reg = (Inr (), reg)"
| "hist_output_loop env hists resp_json (key # rest) reg =
     or_raise (search_json key resp_json) reg (\<lambda>value.
       if value \<noteq> PNone then
         or_raise (dict_get hists key) reg (\<lambda>h.
         and_then (Histogram_observe env h value reg) (\<lambda>u reg'.
           hist_output_loop env hists resp_json rest reg'))
       else hist_output_loop env hists resp_json rest reg)"

text \<open>
  \<open>wrapper\<close> is the function each decorator puts in place of the handler \<^verbatim>\<open>func\<close>: one
  equation per factory method, each the body of that method's \<^verbatim>\<open>wrapper\<close>. The result
  is what the caller gets, the handler's result or an exception, and the registry
  after the call. No wrapper has a \<^verbatim>\<open>try\<close>.
\<close>

fun wrapper ::
  "app_kind \<Rightarrow> env \<Rightarrow> decorator \<Rightarrow> handler \<Rightarrow> pyval list \<Rightarrow> kwargs \<Rightarrow> registry \<Rightarrow> resp_obj outcome" where
  "wrapper self env (CountFalseBinaryFeedback fp_counter fn_counter feedback_key threshold_key)
       func args kwargs reg =
     or_raise (func args kwargs) reg (\<lambda>resp_obj.
     or_raise (transform_request self env kwargs) reg (\<lambda>request_json.
     or_raise (search_json feedback_key request_json) reg (\<lambda>feedback.
     or_raise (threshold_of threshold_key request_json) reg (\<lambda>threshold.
     or_raise (py_getattr feedback ''correctness'') reg (\<lambda>correctness.
     or_raise (py_lt correctness (PInt 0)) reg (\<lambda>negative.
       if negative then
         or_raise (py_getattr feedback ''corrected_value'') reg (\<lambda>corrected_value.
         or_raise (py_gt corrected_value threshold) reg (\<lambda>above.
           if above then (Inr resp_obj, Counter_inc fn_counter reg)
           else (Inr resp_obj, Counter_inc fp_counter reg)))
       else (Inr resp_obj, reg)))))))"
| "wrapper self env (CountFeature counters feature values) func args kwargs reg =
     or_raise (func args kwargs) reg (\<lambda>resp_obj.
     or_raise (transform_request self env kwargs) reg (\<lambda>request_json.
       then_return (count_feature_loop env counters feature request_json values reg) resp_obj))"
| "wrapper self env (GaugeFeature gauges feature_keys) func args kwargs reg =
     or_raise (func args kwargs) reg (\<lambda>resp_obj.
     or_raise (transform_request self env kwargs) reg (\<lambda>request_json.
       then_return (gauge_feature_loop env gauges request_json feature_keys reg) resp_obj))"
| "wrapper self env (HistFeature hists feature_keys) func args kwargs reg =
     or_raise (func args kwargs) reg (\<lambda>resp_obj.
     or_raise (transform_request self env kwargs) reg (\<lambda>request_json.
       then_return (hist_feature_loop env hists request_json feature_keys reg) resp_obj))"
| "wrapper self env (CountBinary positive_cls negative_cls result_key threshold_key)
       func args kwargs reg =
     or_raise (func args kwargs) reg (\<lambda>resp_obj.
     or_raise (transform_response self env resp_obj) reg (\<lambda>resp_json.
     or_raise (search_json result_key resp_json) reg (\<lambda>value.
     or_raise (threshold_of threshold_key resp_json) reg (\<lambda>threshold.
       if value \<noteq> PNone then
         or_raise (py_gt value threshold) reg (\<lambda>above.
           if above then (Inr resp_obj, Counter_inc positive_cls reg)
           else (Inr resp_obj, Counter_inc negative_cls reg))
       else (Inr resp_obj, reg)))))"
| "wrapper self env (CountClasses counters threshold_key class_keys) func args kwargs reg =
     or_raise (func args kwargs) reg (\<lambda>resp_obj.
     or_raise (transform_response self env resp_obj) reg (\<lambda>resp_json.
     or_raise (threshold_of threshold_key resp_json) reg (\<lambda>threshold.
       then_return (count_classes_loop counters threshold resp_json class_keys reg) resp_obj)))"
| "wrapper self env (GaugeOutput gauges value_keys) func args kwargs reg =
     or_raise (func args kwargs) reg (\<lambda>resp_obj.
     or_raise (transform_response self env resp_obj) reg (\<lambda>resp_json.
       then_return (gauge_output_loop env gauges resp_json value_keys reg) resp_obj))"
| "wrapper self env (HistOutput hists value_keys) func args kwargs reg =
     or_raise (func args kwargs) reg (\<lambda>resp_obj.
     or_raise (transform_response self env resp_obj) reg (\<lambda>resp_json.
       then_return (hist_output_loop env hists resp_json value_keys reg) resp_obj))"
| "wrapper self env (HistOutputSpecific hists bucket_keys) func args kwargs reg =
     or_raise (func args kwargs) reg (\<lambda>resp_obj.
     or_raise (transform_response self env resp_obj) reg (\<lambda>resp_json.
       then_return (hist_output_loop env hists resp_json bucket_keys reg) resp_obj))"

subsection \<open>The steps of a wrapped call\<close>



section \<open>Concrete surroundings for the examples\<close>

text \<open>
  The examples run the model in one fixed environment: \<^verbatim>\<open>request\<close> is bound to a
  \<^verbatim>\<open>GET\<close> request without parameters, \<^verbatim>\<open>str\<close> renders \<^verbatim>\<open>None\<close>, booleans, integers
  (in decimal) and strings as Python does, and \<^verbatim>\<open>json.loads\<close> parses the one body the
  examples hand it; the backend records numbers and refuses \<^verbatim>\<open>None\<close>, containers and
  objects with \<^verbatim>\<open>TypeError\<close>, as the library does. (\<open>example_str\<close> has a placeholder
  for the values no example renders, and \<open>example_set_refuses\<close> refuses every
  string, also the numerals \<^verbatim>\<open>float\<close> would accept: no example sets a gauge to a
  string.) No metric is registered at the start.
\<close>

fun str_nat :: "nat \<Rightarrow> string" where
  "str_nat n =
     (if n < 10 then [''0123456789'' ! n]
      else str_nat (n div 10) @ [''0123456789'' ! (n mod 10)])"

declare str_nat.simps [simp del]

fun example_str :: "pyval \<Rightarrow> string" where
  "example_str PNone = ''None''"
| "example_str (PBool b) = (if b then ''True'' else ''False'')"
| "example_str (PInt i) = (if i < 0 then ''-'' @ str_nat (nat (- i)) else str_nat (nat i))"
| "example_str (PStr s) = s"
| "example_str _ = ''?''"

fun example_set_refuses :: "pyval \<Rightarrow> exn option" where
  "example_set_refuses (PBool b) = None"
| "example_set_refuses (PInt i) = None"
| "example_set_refuses (PFloat r) = None"
| "example_set_refuses (PStr s) = Some ValueError"
| "example_set_refuses _ = Some TypeError"

fun example_observe_refuses :: "pyval \<Rightarrow> exn option" where
  "example_observe_refuses (PBool b) = None"
| "example_observe_refuses (PInt i) = None"
| "example_observe_refuses (PFloat r) = None"
| "example_observe_refuses _ = Some TypeError"

definition example_env :: env where
  "example_env =
     \<lparr>request_global = Some \<lparr>req_method = ''GET'', req_args = [], req_form = []\<rparr>,
      builtin_str = example_str,
      json_loads = (\<lambda>body. if body = ''{}'' then Inr (PDict []) else Inl JSONDecodeError),
      set_refuses = example_set_refuses,
      observe_refuses = example_observe_refuses\<rparr>"

definition empty_registry :: registry where
  "empty_registry =
     \<lparr>registered = [], counter_value = (\<lambda>m. 0), gauge_value = (\<lambda>m. None),
      observations = (\<lambda>m. [])\<rparr>"

text \<open>The values a list accepts as an index.\<close>

fun is_index :: "pyval \<Rightarrow> bool" where
  "is_index (PInt _) = True"
| "is_index (PBool _) = True"
| "is_index _ = False"

text \<open>
  The floats the literals \<^verbatim>\<open>0.7\<close> and \<^verbatim>\<open>0.3\<close> denote (the nearest doubles); the
  threshold \<^verbatim>\<open>0.5\<close> is exactly one half.
\<close>

definition float_0_7 :: rat where
  "float_0_7 = 3152519739159347 / 4503599627370496"

definition float_0_3 :: rat where
  "float_0_3 = 5404319552844595 / 18014398509481984"

section \<open>Properties of the structured search\<close>

text \<open>
  The loop itself can raise, here on a list whose element is a dict (a list cannot be
  indexed with a dict), and a value that is not iterable fails before the loop starts;
  the \<^verbatim>\<open>except\<close> clause of \<open>search_json\<close> answers both with \<^verbatim>\<open>None\<close>.
\<close>

lemma search_loop_can_raise:
  "search_loop ''k'' (PList [PDict []]) [PDict []] = Inl TypeError"
  by simp

lemma search_json_not_iterable:
  "py_iter json_obj = Inl e \<Longrightarrow> search_json key json_obj = Inr PNone"
  by (simp add: search_json.simps)

lemma search_json_returns: "\<exists>v. search_json key json_obj = Inr v"
  by (cases "py_iter json_obj") (auto simp: search_json.simps split: sum.splits)

text \<open>
  What a search returns other than \<^verbatim>\<open>None\<close> is a value the container binds to the key
  somewhere inside it: the loop returns either the binding of the key in the container
  itself or what the search of one of its children returned.
\<close>

lemma search_json_str: "search_json key (PStr s) = Inr PNone"
  by (cases s) (auto simp: search_json.simps)

lemma bindings_value: "(k, v) \<in> set kvs \<Longrightarrow> set (bindings key v) \<subseteq> set (bindings_items key kvs)"
  by (induction kvs) auto

lemma bindings_elem: "x \<in> set xs \<Longrightarrow> set (bindings key x) \<subseteq> set (bindings_list key xs)"
  by (induction xs) auto

lemma bindings_top: "(key, v) \<in> set kvs \<Longrightarrow> v \<in> set (bindings_items key kvs)"
  by (induction kvs) auto

lemma getitem_key_binding:
  "py_getitem obj (PStr key) = Inr v \<Longrightarrow> v \<in> set (bindings key obj)"
  by (cases obj) (auto split: option.splits dest!: map_of_SomeD bindings_top)

lemma getitem_child_bindings:
  "py_getitem obj ikey = Inr child \<Longrightarrow> set (bindings key child) \<subseteq> set (bindings key obj)"
  by (cases obj; cases ikey)
    (auto split: option.splits if_splits sum.splits
      dest!: map_of_SomeD seq_index_mem dest: bindings_value bindings_elem)

lemma search_finds_bindings:
  "search_json key json_obj = Inr v \<Longrightarrow> v = PNone \<or> v \<in> set (bindings key json_obj)"
  "search_loop key json_obj items = Inr w \<Longrightarrow> w = PNone \<or> w \<in> set (bindings key json_obj)"
proof (induction key json_obj and key json_obj items arbitrary: v and w
    rule: search_json_search_loop.induct)
  case (1 key json_obj)
  then show ?case
    by (auto simp: search_json.simps split: sum.splits)
next
  case (2 key json_obj)
  then show ?case by simp
next
  case (3 key json_obj ikey rest)
  note prem = "3.prems"
  show ?case
  proof (cases "ikey = PStr key")
    case True
    with prem show ?thesis by (auto dest: getitem_key_binding)
  next
    case False
    show ?thesis
    proof (cases "py_getitem json_obj ikey")
      case (Inl e)
      with False prem show ?thesis by simp
    next
      case (Inr child)
      obtain res where res: "search_json key child = Inr res"
        using search_json_returns by blast
      show ?thesis
      proof (cases "res = PNone")
        case True
        with False Inr res prem have "search_loop key json_obj rest = Inr w" by simp
        with "3.IH"(2) [OF False Inr res] True show ?thesis by simp
      next
        case nonNone: False
        from "3.IH"(1) [OF False Inr res] nonNone
        have "res \<in> set (bindings key child)" by simp
        with getitem_child_bindings [OF Inr, of key]
        have "res \<in> set (bindings key json_obj)" by blast
        with False Inr res nonNone prem show ?thesis by simp
      qed
    qed
  qed
qed

text \<open>
  Claim C4. For every key and every container, well-formed or not, \<^verbatim>\<open>search_json\<close>
  returns, and no exception reaches its caller. What it returns is \<^verbatim>\<open>None\<close> or a value
  that the container binds to the key somewhere inside it; it is \<^verbatim>\<open>None\<close> when the
  container is not iterable, and \<^verbatim>\<open>None\<close> when the iteration, an indexing or anything
  else in the loop raises.
\<close>

theorem search_json_found_or_None:
  "\<exists>v. search_json key json_obj = Inr v \<and>
     (v = PNone \<or> v \<in> set (bindings key json_obj)) \<and>
     ((\<exists>e. py_iter json_obj = Inl e) \<longrightarrow> v = PNone) \<and>
     ((\<exists>items e. py_iter json_obj = Inr items \<and> search_loop key json_obj items = Inl e)
        \<longrightarrow> v = PNone)"
proof -
  obtain v where v: "search_json key json_obj = Inr v"
    using search_json_returns by blast
  from search_finds_bindings(1) [OF v]
  have "v = PNone \<or> v \<in> set (bindings key json_obj)" by simp
  moreover have "(\<exists>e. py_iter json_obj = Inl e) \<longrightarrow> v = PNone"
    using v by (auto simp: search_json.simps)
  moreover have "(\<exists>items e. py_iter json_obj = Inr items \<and> search_loop key json_obj items = Inl e)
        \<longrightarrow> v = PNone"
    using v by (auto simp: search_json.simps)
  ultimately show ?thesis using v by blast
qed

text \<open>
  A number, a string and an object are searched without an exception and yield
  \<^verbatim>\<open>None\<close>; so does a list whose first element is a dict. In
  \<^verbatim>\<open>{"a": ["x"], "k": 2}\<close> the search of the list under \<^verbatim>\<open>"a"\<close> raises inside and
  yields \<^verbatim>\<open>None\<close>, and the search goes on to find 2.
\<close>

theorem search_json_found_or_None_witness:
  "search_json ''k'' (PInt 3) = Inr PNone \<and>
   search_json ''k'' (PStr ''kk'') = Inr PNone \<and>
   search_json ''k'' (PObj [(''k'', PInt 1)]) = Inr PNone \<and>
   search_json ''k'' (PList [PDict [(''k'', PInt 1)], PInt 0]) = Inr PNone \<and>
   search_json ''k'' (PDict [(''a'', PList [PStr ''x'']), (''k'', PInt 2)]) = Inr (PInt 2) \<and>
   search_json ''k'' (PDict [(''a'', PInt 7), (''b'', PDict [(''k'', PInt 2)])]) = Inr (PInt 2) \<and>
   bindings ''k'' (PDict [(''a'', PInt 7), (''b'', PDict [(''k'', PInt 2)])]) = [PInt 2]"
  using search_json_found_or_None [of "''k''" "PInt 3"]
    search_json_found_or_None [of "''k''" "PStr ''kk''"]
    search_json_found_or_None [of "''k''" "PObj [(''k'', PInt 1)]"]
    search_json_found_or_None [of "''k''" "PList [PDict [(''k'', PInt 1)], PInt 0]"]
    search_json_found_or_None [of "''k''" "PDict [(''a'', PList [PStr ''x'']), (''k'', PInt 2)]"]
    search_json_found_or_None [of "''k''" "PDict [(''a'', PInt 7), (''b'', PDict [(''k'', PInt 2)])]"]
  by (simp add: search_json.simps)

text \<open>
  Keys enumerated before the searched one: when the search of each of their values
  finds nothing, the loop passes them by.
\<close>

lemma search_loop_skip_keys:
  assumes "\<forall>k \<in> set ks. k \<noteq> key \<and>
             (\<exists>c. map_of kvs k = Some c \<and> search_json key c = Inr PNone)"
  shows "search_loop key (PDict kvs) (map PStr ks @ rest) = search_loop key (PDict kvs) rest"
  using assms by (induction ks) auto

lemma takeWhile_first_binding:
  assumes "k \<in> fst ` set (takeWhile (\<lambda>kv. fst kv \<noteq> key) kvs)"
  shows "\<exists>c. map_of kvs k = Some c \<and> (k, c) \<in> set (takeWhile (\<lambda>kv. fst kv \<noteq> key) kvs)"
  using assms
proof (induction kvs)
  case Nil
  then show ?case by simp
next
  case (Cons kv kvs)
  then show ?case by (cases kv) (auto split: if_splits)
qed

lemma dict_split_at_key:
  assumes "map_of kvs key = Some v"
  shows "map (\<lambda>kv. PStr (fst kv)) kvs =
    map PStr (map fst (takeWhile (\<lambda>kv. fst kv \<noteq> key) kvs)) @ PStr key #
    map (\<lambda>kv. PStr (fst kv)) (tl (dropWhile (\<lambda>kv. fst kv \<noteq> key) kvs))"
  using assms
proof (induction kvs)
  case Nil
  then show ?case by simp
next
  case (Cons kv kvs)
  then show ?case by (cases kv) (auto split: if_splits)
qed

text \<open>
  Claim C3, as the code has it. The test \<^verbatim>\<open>ikey == key\<close> is made inside the loop, key
  by key, after the values of the keys enumerated earlier have been searched. So the
  value bound to a top-level key is returned when the search of every value enumerated
  before that key finds nothing (in particular when the key comes first); the search
  does not look at the top-level keys before it recurses.
\<close>

theorem search_json_top_level_key:
  assumes top: "map_of kvs key = Some v"
    and before: "\<forall>kv \<in> set (takeWhile (\<lambda>kv. fst kv \<noteq> key) kvs).
                   search_json key (snd kv) = Inr PNone"
  shows "search_json key (PDict kvs) = Inr v"
proof -
  let ?pre = "takeWhile (\<lambda>kv. fst kv \<noteq> key) kvs"
  let ?post = "map (\<lambda>kv. PStr (fst kv)) (tl (dropWhile (\<lambda>kv. fst kv \<noteq> key) kvs))"
  have skip: "\<forall>k \<in> set (map fst ?pre). k \<noteq> key \<and>
                (\<exists>c. map_of kvs k = Some c \<and> search_json key c = Inr PNone)"
  proof
    fix k assume k: "k \<in> set (map fst ?pre)"
    then have "k \<in> fst ` set ?pre" by simp
    from takeWhile_first_binding [OF this] obtain c
      where c: "map_of kvs k = Some c" "(k, c) \<in> set ?pre" by blast
    from c(2) before have "search_json key c = Inr PNone" by fastforce
    moreover from k have "k \<noteq> key" by (auto dest: set_takeWhileD)
    ultimately show "k \<noteq> key \<and> (\<exists>c. map_of kvs k = Some c \<and> search_json key c = Inr PNone)"
      using c(1) by blast
  qed
  have "search_loop key (PDict kvs) (map (\<lambda>kv. PStr (fst kv)) kvs)
      = search_loop key (PDict kvs) (PStr key # ?post)"
    by (simp only: dict_split_at_key [OF top] search_loop_skip_keys [OF skip])
  also have "\<dots> = Inr v" using top by simp
  finally show ?thesis by (simp add: search_json.simps)
qed

text \<open>
  In \<^verbatim>\<open>{"a": {"x": 1}, "k": 2, "b": {"k": 3}}\<close> the key \<^verbatim>\<open>"k"\<close> is found at the top
  level: the value of \<^verbatim>\<open>"a"\<close> does not hold it, and \<^verbatim>\<open>"b"\<close> comes later.
\<close>

theorem search_json_top_level_key_witness:
  "search_json ''k''
     (PDict [(''a'', PDict [(''x'', PInt 1)]), (''k'', PInt 2), (''b'', PDict [(''k'', PInt 3)])])
   = Inr (PInt 2)"
  using search_json_top_level_key
    [of "[(''a'', PDict [(''x'', PInt 1)]), (''k'', PInt 2), (''b'', PDict [(''k'', PInt 3)])]"
      "''k''" "PInt 2"]
  by (simp add: search_json.simps)

text \<open>
  Claim C3 as stated fails: in \<^verbatim>\<open>{"a": {"k": 1}, "k": 2}\<close> the key \<^verbatim>\<open>"k"\<close> is a
  top-level key bound to 2, and the search returns the 1 nested under \<^verbatim>\<open>"a"\<close>, which
  is enumerated first.
\<close>

theorem search_json_top_level_shadowed:
  "search_json ''k'' (PDict [(''a'', PDict [(''k'', PInt 1)]), (''k'', PInt 2)]) = Inr (PInt 1)"
  by (simp add: search_json.simps)

text \<open>
  On a list the loop indexes the list with its own elements. An element that is not an
  integer (or a boolean) is no index: reaching it raises inside the \<^verbatim>\<open>try\<close>, and the
  whole search of that list returns \<^verbatim>\<open>None\<close>, whatever the later elements hold.
\<close>

lemma search_json_list_first_not_index:
  "\<not> is_index x \<Longrightarrow> search_json key (PList (x # xs)) = Inr PNone"
  by (cases x) (auto simp: search_json.simps)

lemma search_loop_list_found:
  assumes "\<forall>b \<in> set before. \<exists>c. py_getitem (PList xs) b = Inr c \<and> search_json key c = Inr PNone"
    and "py_getitem (PList xs) i = Inr child"
    and "search_json key child = Inr v"
    and "v \<noteq> PNone"
  shows "search_loop key (PList xs) (before @ i # after) = Inr v"
  using assms(1)
proof (induction before)
  case Nil
  from assms(2) have "i \<noteq> PStr key" by auto
  with assms(2-4) show ?case by simp
next
  case (Cons b before)
  then obtain c where c: "py_getitem (PList xs) b = Inr c" "search_json key c = Inr PNone"
    by auto
  then have "b \<noteq> PStr key" by auto
  with c Cons show ?case by simp
qed

lemma search_loop_list_found_only:
  assumes "search_loop key (PList xs) items = Inr v" and "v \<noteq> PNone"
  shows "\<exists>before i after child. items = before @ i # after \<and>
           (\<forall>b \<in> set before. \<exists>c. py_getitem (PList xs) b = Inr c \<and> search_json key c = Inr PNone) \<and>
           py_getitem (PList xs) i = Inr child \<and> search_json key child = Inr v"
  using assms(1)
proof (induction items)
  case Nil
  with assms(2) show ?case by simp
next
  case (Cons h items)
  show ?case
  proof (cases "h = PStr key")
    case True
    with Cons.prems show ?thesis by simp
  next
    case False
    show ?thesis
    proof (cases "py_getitem (PList xs) h")
      case (Inl e)
      with False Cons.prems show ?thesis by simp
    next
      case (Inr child)
      obtain res where res: "search_json key child = Inr res"
        using search_json_returns by blast
      show ?thesis
      proof (cases "res = PNone")
        case True
        with False Inr res Cons.prems have "search_loop key (PList xs) items = Inr v" by simp
        from Cons.IH [OF this] obtain before i after c where
          d: "items = before @ i # after"
            "\<forall>b \<in> set before. \<exists>c. py_getitem (PList xs) b = Inr c \<and> search_json key c = Inr PNone"
            "py_getitem (PList xs) i = Inr c" "search_json key c = Inr v"
          by blast
        have "h # items = (h # before) @ i # after" using d(1) by simp
        moreover have "\<forall>b \<in> set (h # before).
            \<exists>c. py_getitem (PList xs) b = Inr c \<and> search_json key c = Inr PNone"
          using d(2) Inr res True by auto
        ultimately show ?thesis using d(3,4) by blast
      next
        case nonNone: False
        with False Inr res Cons.prems have "res = v" by simp
        with Inr res have "h # items = [] @ h # items \<and>
            (\<forall>b \<in> set []. \<exists>c. py_getitem (PList xs) b = Inr c \<and> search_json key c = Inr PNone) \<and>
            py_getitem (PList xs) h = Inr child \<and> search_json key child = Inr v"
          by simp
        then show ?thesis by blast
      qed
    qed
  qed
qed

text \<open>
  Claim C10, as the code has it. The search of a list returns a value \<open>v\<close> other than
  \<^verbatim>\<open>None\<close> exactly when the list has an element \<open>i\<close> that is a position of the list
  (an integer or boolean in range, counted from either end), every element enumerated
  before \<open>i\<close> is a position too and the search of the element at that position
  returns \<^verbatim>\<open>None\<close>, and the search of the element at position \<open>i\<close> returns \<open>v\<close>. The
  elements are never searched as they are enumerated. So a key inside a dict that is an
  element of a list is found only through an element that is the position of that dict
  (or of a container that holds it), and in every other case the search returns
  \<^verbatim>\<open>None\<close>.
\<close>

theorem search_json_list_found_iff:
  "(search_json key (PList xs) = Inr v \<and> v \<noteq> PNone) \<longleftrightarrow>
   (\<exists>before i after child.
      xs = before @ i # after \<and>
      (\<forall>b \<in> set before. \<exists>c. py_getitem (PList xs) b = Inr c \<and> search_json key c = Inr PNone) \<and>
      py_getitem (PList xs) i = Inr child \<and>
      search_json key child = Inr v \<and> v \<noteq> PNone)"
proof
  assume a: "search_json key (PList xs) = Inr v \<and> v \<noteq> PNone"
  then have "search_loop key (PList xs) xs = Inr v"
    by (auto simp: search_json.simps split: sum.splits)
  from search_loop_list_found_only [OF this] a
  show "\<exists>before i after child.
      xs = before @ i # after \<and>
      (\<forall>b \<in> set before. \<exists>c. py_getitem (PList xs) b = Inr c \<and> search_json key c = Inr PNone) \<and>
      py_getitem (PList xs) i = Inr child \<and>
      search_json key child = Inr v \<and> v \<noteq> PNone"
    by blast
next
  assume "\<exists>before i after child.
      xs = before @ i # after \<and>
      (\<forall>b \<in> set before. \<exists>c. py_getitem (PList xs) b = Inr c \<and> search_json key c = Inr PNone) \<and>
      py_getitem (PList xs) i = Inr child \<and>
      search_json key child = Inr v \<and> v \<noteq> PNone"
  then obtain before i after child where
    d: "xs = before @ i # after"
      "\<forall>b \<in> set before. \<exists>c. py_getitem (PList xs) b = Inr c \<and> search_json key c = Inr PNone"
      "py_getitem (PList xs) i = Inr child" "search_json key child = Inr v" "v \<noteq> PNone"
    by blast
  from search_loop_list_found [OF d(2,3,4,5), of after] d(1)
  have "search_loop key (PList xs) xs = Inr v" by simp
  with d(5) show "search_json key (PList xs) = Inr v \<and> v \<noteq> PNone"
    by (simp add: search_json.simps)
qed

text \<open>
  In particular the search returns \<^verbatim>\<open>None\<close> when no element of the list is the
  position of an element whose search finds the key.
\<close>

lemma search_json_list_no_position:
  assumes "\<forall>i \<in> set xs. \<forall>child. py_getitem (PList xs) i = Inr child \<longrightarrow> search_json key child = Inr PNone"
  shows "search_json key (PList xs) = Inr PNone"
proof -
  obtain v where v: "search_json key (PList xs) = Inr v"
    using search_json_returns by blast
  have "v = PNone"
  proof (rule ccontr)
    assume "v \<noteq> PNone"
    with v have "search_loop key (PList xs) xs = Inr v"
      by (auto simp: search_json.simps split: sum.splits)
    from search_loop_list_found_only [OF this \<open>v \<noteq> PNone\<close>] assms \<open>v \<noteq> PNone\<close>
    show False by fastforce
  qed
  with v show ?thesis by simp
qed

text \<open>
  \<^verbatim>\<open>search_json("k", [{"k": 1}])\<close> is \<^verbatim>\<open>None\<close>, and so is the search of
  \<^verbatim>\<open>[0, {"k": 1}]\<close> (0 is the position of 0 itself, and the dict is no index) and of
  \<^verbatim>\<open>[5, {"k": 1}]\<close> (5 is out of range); \<^verbatim>\<open>[1, {"k": 7}]\<close> and
  \<^verbatim>\<open>[0, 2, {"k": 7}]\<close> yield 7.
\<close>

theorem search_json_list_found_iff_witness:
  "search_json ''k'' (PList [PDict [(''k'', PInt 1)]]) = Inr PNone \<and>
   search_json ''k'' (PList [PInt 0, PDict [(''k'', PInt 1)]]) = Inr PNone \<and>
   search_json ''k'' (PList [PInt 5, PDict [(''k'', PInt 1)]]) = Inr PNone \<and>
   search_json ''k'' (PList [PDict [(''x'', PInt 0)], PInt 0, PDict [(''k'', PInt 1)]]) = Inr PNone \<and>
   search_json ''k'' (PList [PInt 1, PDict [(''k'', PInt 7)]]) = Inr (PInt 7) \<and>
   search_json ''k'' (PList [PInt 0, PInt 2, PDict [(''k'', PInt 7)]]) = Inr (PInt 7)"
proof -
  have 1: "search_json ''k'' (PList [PInt 1, PDict [(''k'', PInt 7)]]) = Inr (PInt 7) \<and> PInt 7 \<noteq> PNone"
    unfolding search_json_list_found_iff
    by (rule exI [of _ "[]"], rule exI [of _ "PInt 1"], rule exI [of _ "[PDict [(''k'', PInt 7)]]"],
        rule exI [of _ "PDict [(''k'', PInt 7)]"])
      (simp add: seq_index_def search_json.simps)
  have 2: "search_json ''k'' (PList [PInt 0, PInt 2, PDict [(''k'', PInt 7)]]) = Inr (PInt 7) \<and> PInt 7 \<noteq> PNone"
    unfolding search_json_list_found_iff
    by (rule exI [of _ "[PInt 0]"], rule exI [of _ "PInt 2"], rule exI [of _ "[PDict [(''k'', PInt 7)]]"],
        rule exI [of _ "PDict [(''k'', PInt 7)]"])
      (simp add: seq_index_def search_json.simps)
  from 1 2 show ?thesis
    by (simp add: search_json.simps seq_index_def)
qed

text \<open>
  Claim C10 as stated fails: a key that occurs only inside a dict that is an element of a
  list is found when an integer enumerated earlier is the position of that dict.
  \<^verbatim>\<open>search_json("k", [1, {"k": 1}])\<close> indexes the list with its element 1, reaches the
  dict and returns 1.
\<close>

theorem search_json_list_element_found:
  "search_json ''k'' (PList [PInt 1, PDict [(''k'', PInt 1)]]) = Inr (PInt 1)"
  by (simp add: search_json.simps seq_index_def)

section \<open>Properties of the request view\<close>

lemma map_of_dict_set: "map_of (dict_set d k v) k' = (if k' = k then Some v else map_of d k')"
  by (induction d) auto

lemma keys_dict_set:
  "map fst (dict_set d k v) = (if k \<in> set (map fst d) then map fst d else map fst d @ [k])"
  by (induction d) auto

lemma set_multi_keys: "set (multi_keys params) = fst ` set params"
  by (induction params) auto

lemma map_of_fill_res:
  "map_of (fill_res params keys res) k =
     (if k \<in> set keys then Some (multi_get params k) else map_of res k)"
  by (induction keys arbitrary: res) (auto simp: map_of_dict_set)

lemma keys_fill_res:
  "distinct (map fst res) \<Longrightarrow> distinct (map fst (fill_res params keys res))"
  by (induction keys arbitrary: res) (auto simp: keys_dict_set)

text \<open>
  The dict the loop of the Flask adapter builds from a parameter set has every name of
  the set once, bound to the first value the set has for it.
\<close>

lemma params_view:
  "distinct (map fst (fill_res params (multi_keys params) [])) \<and>
   map_of (fill_res params (multi_keys params) []) name = map_option PStr (map_of params name)"
proof -
  have "map_of (fill_res params (multi_keys params) []) name = map_option PStr (map_of params name)"
  proof (cases "name \<in> fst ` set params")
    case True
    then obtain v where "map_of params name = Some v"
      by (metis domD dom_map_of_conv_image_fst)
    with True show ?thesis by (simp add: map_of_fill_res set_multi_keys multi_get_def)
  next
    case False
    then have "map_of params name = None" by (simp add: map_of_eq_None_iff)
    with False show ?thesis by (simp add: map_of_fill_res set_multi_keys)
  qed
  then show ?thesis by (simp add: keys_fill_res)
qed

text \<open>
  Claim C5, as the code has it. With at least one keyword argument the view of the Flask
  adapter is the keyword arguments, unmerged. With none, the view is a dict that binds
  every parameter name once, to its first value, in the combined query and body
  parameters when the method is exactly \<^verbatim>\<open>POST\<close>, and in the query parameters alone
  for every other method, the other writing verbs (\<^verbatim>\<open>PUT\<close>, \<^verbatim>\<open>PATCH\<close>,
  \<^verbatim>\<open>DELETE\<close>) included.
\<close>

theorem transform_request_to_json_flask_view:
  "(kwargs \<noteq> [] \<longrightarrow> transform_request_to_json_flask request kwargs = PDict kwargs) \<and>
   (kwargs = [] \<longrightarrow>
      (\<exists>res. transform_request_to_json_flask request kwargs = PDict res \<and>
         distinct (map fst res) \<and>
         (\<forall>name. map_of res name =
            map_option PStr
              (map_of (if req_method request = ''POST''
                       then req_args request @ req_form request
                       else req_args request) name))))"
  by (auto simp: transform_request_to_json_flask_def request_values_def Let_def params_view)

text \<open>
  A call with a keyword argument; a \<^verbatim>\<open>POST\<close> with \<^verbatim>\<open>a=1&a=2\<close> in the query and
  \<^verbatim>\<open>x=1&a=3\<close> in the body; the same request as a \<^verbatim>\<open>GET\<close>.
\<close>

theorem transform_request_to_json_flask_view_witness:
  "transform_request_to_json_flask
     \<lparr>req_method = ''POST'', req_args = [(''a'', ''0'')], req_form = [(''b'', ''1'')]\<rparr>
     [(''f'', PInt 2)] = PDict [(''f'', PInt 2)] \<and>
   (\<exists>res. transform_request_to_json_flask
       \<lparr>req_method = ''POST'', req_args = [(''a'', ''1''), (''a'', ''2'')],
        req_form = [(''x'', ''1''), (''a'', ''3'')]\<rparr> [] = PDict res \<and>
      map_of res ''a'' = Some (PStr ''1'') \<and> map_of res ''x'' = Some (PStr ''1'')) \<and>
   (\<exists>res. transform_request_to_json_flask
       \<lparr>req_method = ''GET'', req_args = [(''a'', ''1''), (''a'', ''2'')],
        req_form = [(''x'', ''1''), (''a'', ''3'')]\<rparr> [] = PDict res \<and>
      map_of res ''a'' = Some (PStr ''1'') \<and> map_of res ''x'' = None)"
  using
    transform_request_to_json_flask_view [of "[(''f'', PInt 2)]"
      "\<lparr>req_method = ''POST'', req_args = [(''a'', ''0'')], req_form = [(''b'', ''1'')]\<rparr>"]
    transform_request_to_json_flask_view [of "[]"
      "\<lparr>req_method = ''POST'', req_args = [(''a'', ''1''), (''a'', ''2'')],
        req_form = [(''x'', ''1''), (''a'', ''3'')]\<rparr>"]
    transform_request_to_json_flask_view [of "[]"
      "\<lparr>req_method = ''GET'', req_args = [(''a'', ''1''), (''a'', ''2'')],
        req_form = [(''x'', ''1''), (''a'', ''3'')]\<rparr>"]
  by auto

text \<open>
  Claim C5 as stated fails for a writing verb other than \<^verbatim>\<open>POST\<close>: a \<^verbatim>\<open>PUT\<close> whose
  body carries \<^verbatim>\<open>x=1\<close> gets the empty view, although the combined query and body
  parameters bind \<^verbatim>\<open>x\<close>.
\<close>

theorem transform_request_to_json_flask_put:
  "transform_request_to_json_flask
     \<lparr>req_method = ''PUT'', req_args = [], req_form = [(''x'', ''1'')]\<rparr> [] = PDict [] \<and>
   map_of (req_args \<lparr>req_method = ''PUT'', req_args = [], req_form = [(''x'', ''1'')]\<rparr> @
           req_form \<lparr>req_method = ''PUT'', req_args = [], req_form = [(''x'', ''1'')]\<rparr>) ''x''
     = Some ''1''"
  by (simp add: transform_request_to_json_flask_def)

section \<open>Properties of the decorators\<close>

subsection \<open>Sequencing and the factories\<close>

lemma or_raise_Inl [simp]: "or_raise (Inl e) reg k = (Inl e, reg)"
  by (simp add: or_raise_def)

lemma or_raise_Inr [simp]: "or_raise (Inr x) reg k = k x"
  by (simp add: or_raise_def)

lemma and_then_Inl [simp]: "and_then (Inl e, reg) k = (Inl e, reg)"
  by (simp add: and_then_def)

lemma and_then_Inr [simp]: "and_then (Inr x, reg) k = k x reg"
  by (simp add: and_then_def)

lemma then_return_Inl [simp]: "then_return (Inl e, reg) x = (Inl e, reg)"
  by (simp add: then_return_def)

lemma then_return_Inr [simp]: "then_return (Inr u, reg) x = (Inr x, reg)"
  by (simp add: then_return_def)

lemma fst_or_raise_Inr:
  "fst (or_raise r reg k) = Inr y \<Longrightarrow> \<exists>x. r = Inr x \<and> fst (k x) = Inr y"
  by (cases r) auto

lemma fst_then_return_Inr: "fst (then_return m x) = Inr y \<Longrightarrow> y = x"
  by (cases m; cases "fst m") (auto simp: then_return_def)

lemma and_then_Inr_iff:
  "and_then m k = (Inr y, reg') \<longleftrightarrow> (\<exists>x reg1. m = (Inr x, reg1) \<and> k x reg1 = (Inr y, reg'))"
  by (cases m; cases "fst m") (auto simp: and_then_def)

lemma new_metric_Inr_iff:
  "new_metric kind name doc reg = (Inr m, reg') \<longleftrightarrow>
     name \<notin> set (map fst (registered reg)) \<and> m = name \<and>
     reg' = reg\<lparr>registered := registered reg @ [(name, doc, kind)]\<rparr>"
  by (auto simp: new_metric_def)

text \<open>
  A factory loop that ends without an exception has registered one metric per element,
  under pairwise different names, none registered before, and its dict binds the key of
  every element to that element's metric.
\<close>

lemma make_metrics_created:
  assumes "make_metrics keyf (\<lambda>x. new_metric (kindf x) (namef x) (docf x)) xs d reg = (Inr d', reg')"
    and "\<And>x y. keyf x = keyf y \<Longrightarrow> namef x = namef y"
  shows "distinct (map namef xs) \<and>
         (\<forall>x \<in> set xs. namef x \<notin> set (map fst (registered reg))) \<and>
         (\<forall>x \<in> set xs. map_of d' (keyf x) = Some (namef x)) \<and>
         (\<forall>k. k \<notin> keyf ` set xs \<longrightarrow> map_of d' k = map_of d k)"
  using assms(1)
proof (induction xs arbitrary: d reg)
  case Nil
  then show ?case by simp
next
  case (Cons x xs)
  from Cons.prems obtain reg1 where
    fresh: "namef x \<notin> set (map fst (registered reg))"
    and reg1: "reg1 = reg\<lparr>registered := registered reg @ [(namef x, docf x, kindf x)]\<rparr>"
    and rest: "make_metrics keyf (\<lambda>x. new_metric (kindf x) (namef x) (docf x)) xs
                 (dict_set d (keyf x) (namef x)) reg1 = (Inr d', reg')"
    by (auto simp: and_then_Inr_iff new_metric_Inr_iff)
  note IH = Cons.IH [OF rest]
  from IH reg1 have notin: "namef x \<notin> set (map namef xs)" by auto
  have key_notin: "keyf x \<notin> keyf ` set xs"
  proof
    assume "keyf x \<in> keyf ` set xs"
    then obtain y where y: "y \<in> set xs" "keyf x = keyf y" by auto
    from assms(2) [OF y(2)] have "namef x = namef y" .
    with notin y(1) show False by simp
  qed
  have "map_of d' (keyf x) = Some (namef x)"
    using IH key_notin by (simp add: map_of_dict_set)
  moreover have "\<forall>k. k \<notin> keyf ` set (x # xs) \<longrightarrow> map_of d' k = map_of d k"
    using IH by (simp add: map_of_dict_set)
  moreover have "\<forall>y \<in> set xs. namef y \<notin> set (map fst (registered reg))"
    using IH reg1 by auto
  ultimately show ?case using IH fresh notin by auto
qed

lemma counter_value_Counter_inc:
  "counter_value (Counter_inc m reg) n = (if n = m then counter_value reg m + 1 else counter_value reg n)"
  by (simp add: Counter_inc_def)

lemma py_gt_None [simp]: "py_gt v PNone = Inl TypeError"
  by (cases v) (auto split: option.splits)

subsection \<open>The output-binary policy\<close>

lemma count_binary_created:
  "count_binary ident result_key threshold_key reg0 = (Inr deco, reg1) \<Longrightarrow>
   deco = CountBinary (ident @ ''_pos'') (ident @ ''_neg'') result_key threshold_key"
  by (auto simp: count_binary_def Counter_def and_then_Inr_iff new_metric_Inr_iff)

text \<open>
  Claim C6. For the decorator \<^verbatim>\<open>count_binary(id, "score")\<close>, without a threshold key,
  and a call whose handler returns: when the response view is \<^verbatim>\<open>{"score": 0.7}\<close> the
  call adds one to the positive-class counter and changes nothing else, the
  negative-class counter in particular; when it is \<^verbatim>\<open>{"score": 0.3}\<close> the same holds
  with the two counters exchanged; when it is \<^verbatim>\<open>{}\<close> the registry is unchanged. Each
  time the caller gets the handler's result.
\<close>

theorem count_binary_score:
  assumes created: "count_binary ident ''score'' None reg0 = (Inr deco, reg1)"
    and returns: "func args kwargs = Inr resp_obj"
  shows
    "(transform_response self env resp_obj = Inr (PDict [(''score'', PFloat float_0_7)]) \<longrightarrow>
        wrapper self env deco func args kwargs reg = (Inr resp_obj, Counter_inc (ident @ ''_pos'') reg) \<and>
        counter_value (Counter_inc (ident @ ''_pos'') reg) (ident @ ''_pos'')
          = counter_value reg (ident @ ''_pos'') + 1 \<and>
        counter_value (Counter_inc (ident @ ''_pos'') reg) (ident @ ''_neg'')
          = counter_value reg (ident @ ''_neg'')) \<and>
     (transform_response self env resp_obj = Inr (PDict [(''score'', PFloat float_0_3)]) \<longrightarrow>
        wrapper self env deco func args kwargs reg = (Inr resp_obj, Counter_inc (ident @ ''_neg'') reg) \<and>
        counter_value (Counter_inc (ident @ ''_neg'') reg) (ident @ ''_neg'')
          = counter_value reg (ident @ ''_neg'') + 1 \<and>
        counter_value (Counter_inc (ident @ ''_neg'') reg) (ident @ ''_pos'')
          = counter_value reg (ident @ ''_pos'')) \<and>
     (transform_response self env resp_obj = Inr (PDict []) \<longrightarrow>
        wrapper self env deco func args kwargs reg = (Inr resp_obj, reg))"
  using returns
  by (simp add: count_binary_created [OF created] search_json.simps float_0_7_def float_0_3_def
      counter_value_Counter_inc)

text \<open>
  Under FastAPI a handler that returns the dict is its own view; under Flask the
  response body \<^verbatim>\<open>{}\<close> parses to the empty view.
\<close>

theorem count_binary_score_witness:
  "(let deco = CountBinary ''m_pos'' ''m_neg'' ''score'' None in
    count_binary ''m'' ''score'' None empty_registry = (Inr deco,
       empty_registry\<lparr>registered :=
         [(''m_pos'', ''Counter metric for the positive class of:m'', CounterKind),
          (''m_neg'', ''Counter metric for the negative class of:m'', CounterKind)]\<rparr>) \<and>
    wrapper FastAPI example_env deco
      (\<lambda>args kwargs. Inr (Plain (PDict [(''score'', PFloat float_0_7)]))) [] [] empty_registry
     = (Inr (Plain (PDict [(''score'', PFloat float_0_7)])), Counter_inc ''m_pos'' empty_registry) \<and>
    wrapper FastAPI example_env deco
      (\<lambda>args kwargs. Inr (Plain (PDict [(''score'', PFloat float_0_3)]))) [] [] empty_registry
     = (Inr (Plain (PDict [(''score'', PFloat float_0_3)])), Counter_inc ''m_neg'' empty_registry) \<and>
    wrapper Flask example_env deco
      (\<lambda>args kwargs. Inr (Response ''{}'')) [] [] empty_registry
     = (Inr (Response ''{}''), empty_registry))"
proof -
  let ?reg1 = "empty_registry\<lparr>registered :=
         [(''m_pos'', ''Counter metric for the positive class of:m'', CounterKind),
          (''m_neg'', ''Counter metric for the negative class of:m'', CounterKind)]\<rparr>"
  have created: "count_binary ''m'' ''score'' None empty_registry
      = (Inr (CountBinary ''m_pos'' ''m_neg'' ''score'' None), ?reg1)"
    by (simp add: count_binary_def Counter_def new_metric_def empty_registry_def)
  show ?thesis
    using
      count_binary_score [OF created, of "\<lambda>args kwargs. Inr (Plain (PDict [(''score'', PFloat float_0_7)]))"
        "[]" "[]" "Plain (PDict [(''score'', PFloat float_0_7)])" FastAPI example_env empty_registry]
      count_binary_score [OF created, of "\<lambda>args kwargs. Inr (Plain (PDict [(''score'', PFloat float_0_3)]))"
        "[]" "[]" "Plain (PDict [(''score'', PFloat float_0_3)])" FastAPI example_env empty_registry]
      count_binary_score [OF created, of "\<lambda>args kwargs. Inr (Response ''{}'')"
        "[]" "[]" "Response ''{}''" Flask example_env empty_registry]
      created
    by (simp add: transform_response_def example_env_def)
qed

subsection \<open>What the caller of a wrapped handler gets\<close>


lemma or_raise_then_case:
  "or_raise r reg k = (case r of Inl e \<Rightarrow> (Inl e, reg) | Inr x \<Rightarrow> k x)"
  by (simp add: or_raise_def)



text \<open>Whenever a wrapped call returns, it returns what the handler returned.\<close>

lemma wrapper_returns_handler_result:
  assumes returns: "func args kwargs = Inr resp_obj"
    and normal: "fst (wrapper self env deco func args kwargs reg) = Inr r"
  shows "r = resp_obj"
proof (cases deco)
  case (CountFalseBinaryFeedback fp_counter fn_counter feedback_key threshold_key)
  with returns normal show ?thesis
    by (auto dest!: fst_or_raise_Inr split: if_splits)
next
  case (CountFeature counters feature vals)
  with returns normal show ?thesis
    by (auto dest!: fst_or_raise_Inr fst_then_return_Inr)
next
  case (GaugeFeature gauges feature_keys)
  with returns normal show ?thesis
    by (auto dest!: fst_or_raise_Inr fst_then_return_Inr)
next
  case (HistFeature hists feature_keys)
  with returns normal show ?thesis
    by (auto dest!: fst_or_raise_Inr fst_then_return_Inr)
next
  case (CountBinary positive_cls negative_cls result_key threshold_key)
  with returns normal show ?thesis
    by (auto dest!: fst_or_raise_Inr split: if_splits)
next
  case (CountClasses counters threshold_key class_keys)
  with returns normal show ?thesis
    by (auto dest!: fst_or_raise_Inr fst_then_return_Inr)
next
  case (GaugeOutput gauges value_keys)
  with returns normal show ?thesis
    by (auto dest!: fst_or_raise_Inr fst_then_return_Inr)
next
  case (HistOutput hists value_keys)
  with returns normal show ?thesis
    by (auto dest!: fst_or_raise_Inr fst_then_return_Inr)
next
  case (HistOutputSpecific hists bucket_keys)
  with returns normal show ?thesis
    by (auto dest!: fst_or_raise_Inr fst_then_return_Inr)
qed

text \<open>An exception of the handler reaches the caller, and no metric is touched.\<close>

lemma handler_failure_propagates:
  "func args kwargs = Inl e \<Longrightarrow> wrapper self env deco func args kwargs reg = (Inl e, reg)"
  by (cases deco) auto


subsection \<open>The feature-count policy\<close>

lemma count_feature_created:
  assumes "count_feature env ident feature vals reg0 = (Inr deco, reg1)"
  shows "\<exists>counters. deco = CountFeature counters feature vals \<and>
           distinct (map (\<lambda>val. ident @ ''_'' @ feature @ ''_'' @ builtin_str env val) vals) \<and>
           (\<forall>val \<in> set vals. dict_get counters (feature @ ''_'' @ builtin_str env val)
              = Inr (ident @ ''_'' @ feature @ ''_'' @ builtin_str env val))"
proof -
  from assms obtain counters where
    made: "make_metrics (\<lambda>val. feature @ ''_'' @ builtin_str env val)
            (\<lambda>val. new_metric CounterKind (ident @ ''_'' @ feature @ ''_'' @ builtin_str env val)
               (''Counter for feature and value:'' @ feature @ ''_'' @ builtin_str env val))
            vals [] reg0 = (Inr counters, reg1)"
    and deco: "deco = CountFeature counters feature vals"
    by (auto simp: count_feature_def Counter_def and_then_Inr_iff)
  from make_metrics_created [OF made] deco show ?thesis
    by (auto simp: dict_get_def)
qed

lemma count_feature_loop_first_equal:
  assumes "py_getitem request_json (PStr feature) = Inr x"
    and "\<forall>w \<in> set before. \<not> py_eq x w"
    and "py_eq x v"
    and "dict_get counters (feature @ ''_'' @ builtin_str env v) = Inr c"
  shows "count_feature_loop env counters feature request_json (before @ v # after) reg
           = (Inr (), Counter_inc c reg)"
  using assms by (induction before) auto

lemma count_feature_loop_none_equal:
  assumes "py_getitem request_json (PStr feature) = Inr x"
    and "\<forall>w \<in> set vals. \<not> py_eq x w"
  shows "count_feature_loop env counters feature request_json vals reg = (Inr (), reg)"
  using assms by (induction vals) auto

text \<open>
  Claim C7. Take a decorator that \<^verbatim>\<open>count_feature\<close> created over the values
  \<open>vals\<close>, a call whose handler returns, and a request view whose field
  \<^verbatim>\<open>feature\<close> is \<open>x\<close>. If \<open>v\<close> is the first of the values, in the order they were
  supplied, that equals \<open>x\<close>, then the call adds one to the counter of \<open>v\<close> and
  changes nothing else in the registry: the counter of every other enumerated value,
  before or after \<open>v\<close>, equal to \<open>x\<close> or not, keeps its count. The caller gets the
  handler's result.
\<close>

theorem count_feature_first_equal:
  assumes created: "count_feature env ident feature vals reg0 = (Inr deco, reg1)"
    and returns: "func args kwargs = Inr resp_obj"
    and view: "transform_request self env kwargs = Inr request_json"
    and field: "py_getitem request_json (PStr feature) = Inr x"
    and vals: "vals = before @ v # after"
    and first: "\<forall>w \<in> set before. \<not> py_eq x w" "py_eq x v"
  shows
    "wrapper self env deco func args kwargs reg
       = (Inr resp_obj, Counter_inc (ident @ ''_'' @ feature @ ''_'' @ builtin_str env v) reg) \<and>
     counter_value (snd (wrapper self env deco func args kwargs reg))
         (ident @ ''_'' @ feature @ ''_'' @ builtin_str env v)
       = counter_value reg (ident @ ''_'' @ feature @ ''_'' @ builtin_str env v) + 1 \<and>
     (\<forall>w \<in> set (before @ after).
        counter_value (snd (wrapper self env deco func args kwargs reg))
            (ident @ ''_'' @ feature @ ''_'' @ builtin_str env w)
          = counter_value reg (ident @ ''_'' @ feature @ ''_'' @ builtin_str env w))"
proof -
  let ?name = "\<lambda>val. ident @ ''_'' @ feature @ ''_'' @ builtin_str env val"
  from count_feature_created [OF created] obtain counters where
    deco: "deco = CountFeature counters feature vals"
    and names: "distinct (map ?name vals)"
    and dict: "\<forall>val \<in> set vals. dict_get counters (feature @ ''_'' @ builtin_str env val) = Inr (?name val)"
    by blast
  from dict vals have c: "dict_get counters (feature @ ''_'' @ builtin_str env v) = Inr (?name v)"
    by simp
  have run: "wrapper self env deco func args kwargs reg = (Inr resp_obj, Counter_inc (?name v) reg)"
    using returns view
    by (simp add: deco vals count_feature_loop_first_equal [OF field first c])
  from names vals have "?name v \<notin> ?name ` set (before @ after)"
    by (simp add: image_Un)
  then have other: "\<forall>w \<in> set (before @ after). ?name w \<noteq> ?name v"
    by (metis imageI)
  show ?thesis
    unfolding run using other by (simp only: snd_conv counter_value_Counter_inc) simp
qed

text \<open>
  The values 1, 2, 3 and a request view with \<^verbatim>\<open>f = 2\<close>: the counter of 2 goes from 0
  to 1, the counters of 1 and 3 stay at 0.
\<close>

theorem count_feature_first_equal_witness:
  "count_feature example_env ''m'' ''f'' [PInt 1, PInt 2, PInt 3] empty_registry
     = (Inr (CountFeature [(''f_1'', ''m_f_1''), (''f_2'', ''m_f_2''), (''f_3'', ''m_f_3'')] ''f''
              [PInt 1, PInt 2, PInt 3]),
        empty_registry\<lparr>registered :=
          [(''m_f_1'', ''Counter for feature and value:f_1'', CounterKind),
           (''m_f_2'', ''Counter for feature and value:f_2'', CounterKind),
           (''m_f_3'', ''Counter for feature and value:f_3'', CounterKind)]\<rparr>) \<and>
   (let out = wrapper FastAPI example_env
        (CountFeature [(''f_1'', ''m_f_1''), (''f_2'', ''m_f_2''), (''f_3'', ''m_f_3'')] ''f''
           [PInt 1, PInt 2, PInt 3])
        (\<lambda>args kwargs. Inr (Plain (PStr ''ok''))) [] [(''feature'', PInt 2), (''f'', PInt 2)] empty_registry
    in fst out = Inr (Plain (PStr ''ok'')) \<and>
       counter_value (snd out) ''m_f_2'' = 1 \<and>
       counter_value (snd out) ''m_f_1'' = 0 \<and>
       counter_value (snd out) ''m_f_3'' = 0)"
proof -
  let ?deco = "CountFeature [(''f_1'', ''m_f_1''), (''f_2'', ''m_f_2''), (''f_3'', ''m_f_3'')] ''f''
              [PInt 1, PInt 2, PInt 3]"
  let ?reg1 = "empty_registry\<lparr>registered :=
          [(''m_f_1'', ''Counter for feature and value:f_1'', CounterKind),
           (''m_f_2'', ''Counter for feature and value:f_2'', CounterKind),
           (''m_f_3'', ''Counter for feature and value:f_3'', CounterKind)]\<rparr>"
  have created: "count_feature example_env ''m'' ''f'' [PInt 1, PInt 2, PInt 3] empty_registry
      = (Inr ?deco, ?reg1)"
    by (simp add: count_feature_def Counter_def new_metric_def empty_registry_def example_env_def
        str_nat.simps)
  have view: "transform_request FastAPI example_env [(''feature'', PInt 2), (''f'', PInt 2)]
      = Inr (PDict [(''feature'', PInt 2), (''f'', PInt 2)])"
    by (simp add: transform_request_def example_env_def transform_request_to_json_fastapi_def)
  have field: "py_getitem (PDict [(''feature'', PInt 2), (''f'', PInt 2)]) (PStr ''f'') = Inr (PInt 2)"
    by simp
  have vals: "[PInt 1, PInt 2, PInt 3] = [PInt 1] @ PInt 2 # [PInt 3]" by simp
  have first: "\<forall>w \<in> set [PInt 1]. \<not> py_eq (PInt 2) w" "py_eq (PInt 2) (PInt 2)" by simp_all
  have returns: "(\<lambda>args kwargs. Inr (Plain (PStr ''ok''))) [] [(''feature'', PInt 2), (''f'', PInt 2)]
      = (Inr (Plain (PStr ''ok'')) :: exn + resp_obj)" by simp
  from count_feature_first_equal [OF created returns view field vals first, where reg = empty_registry]
  show ?thesis
    using created
    by (simp add: example_env_def str_nat.simps empty_registry_def Let_def transform_request_def
        transform_request_to_json_fastapi_def dict_get_def Counter_inc_def)
qed

subsection \<open>A threshold key that the view does not hold\<close>

lemma num_of_not_None: "num_of v \<noteq> None \<Longrightarrow> v \<noteq> PNone"
  by auto

lemma count_classes_loop_threshold_None:
  assumes "cls \<in> set class_keys"
    and "search_json cls resp_json = Inr v"
    and "v \<noteq> PNone"
  shows "count_classes_loop counters PNone resp_json class_keys reg = (Inl TypeError, reg)"
  using assms(1)
proof (induction class_keys)
  case Nil
  then show ?case by simp
next
  case (Cons k ks)
  obtain w where w: "search_json k resp_json = Inr w"
    using search_json_returns by blast
  show ?case
  proof (cases "w = PNone")
    case True
    with w assms(2,3) have "k \<noteq> cls" by auto
    with Cons True w show ?thesis by simp
  next
    case False
    with w show ?thesis by (simp split: option.splits)
  qed
qed

text \<open>
  Claim C8, as the code has it. Take \<^verbatim>\<open>count_binary\<close> or \<^verbatim>\<open>count_classes\<close> with a
  threshold key that is not the empty string, and a call whose handler returns and
  whose response view does not hold that key (the search returns \<^verbatim>\<open>None\<close>). Then the
  threshold is \<^verbatim>\<open>None\<close>, not 0.5, and when the result value (for \<^verbatim>\<open>count_classes\<close>:
  the value of one of the classes) is a number, the comparison raises \<^verbatim>\<open>TypeError\<close>
  out of the wrapper, and no counter is incremented.
\<close>

theorem threshold_key_absent_raises:
  assumes returns: "func args kwargs = Inr resp_obj"
    and view: "transform_response self env resp_obj = Inr resp_json"
    and supplied: "threshold_key \<noteq> []"
    and absent: "search_json threshold_key resp_json = Inr PNone"
  shows
    "threshold_of (Some threshold_key) resp_json = Inr PNone \<and>
     (search_json result_key resp_json = Inr v \<and> num_of v \<noteq> None \<longrightarrow>
        wrapper self env (CountBinary positive_cls negative_cls result_key (Some threshold_key))
          func args kwargs reg = (Inl TypeError, reg)) \<and>
     (cls \<in> set class_keys \<and> search_json cls resp_json = Inr v \<and> num_of v \<noteq> None \<longrightarrow>
        wrapper self env (CountClasses counters (Some threshold_key) class_keys)
          func args kwargs reg = (Inl TypeError, reg))"
  using returns view supplied absent
  by (auto simp: count_classes_loop_threshold_None dest: num_of_not_None)

text \<open>The threshold key \<^verbatim>\<open>"t"\<close> and the response view \<^verbatim>\<open>{"score": 0.7}\<close>.\<close>

theorem threshold_key_absent_raises_witness:
  "threshold_of (Some ''t'') (PDict [(''score'', PFloat float_0_7)]) = Inr PNone \<and>
   wrapper FastAPI example_env (CountBinary ''m_pos'' ''m_neg'' ''score'' (Some ''t''))
     (\<lambda>args kwargs. Inr (Plain (PDict [(''score'', PFloat float_0_7)]))) [] [] empty_registry
     = (Inl TypeError, empty_registry) \<and>
   wrapper FastAPI example_env
     (CountClasses [(''cat'', ''m_cat''), (''score'', ''m_score'')] (Some ''t'') [''cat'', ''score''])
     (\<lambda>args kwargs. Inr (Plain (PDict [(''score'', PFloat float_0_7)]))) [] [] empty_registry
     = (Inl TypeError, empty_registry)"
  using threshold_key_absent_raises
    [where func = "\<lambda>args kwargs. Inr (Plain (PDict [(''score'', PFloat float_0_7)]))"
      and args = "[]" and kwargs = "[]"
      and resp_obj = "Plain (PDict [(''score'', PFloat float_0_7)])"
      and self = FastAPI and env = example_env
      and resp_json = "PDict [(''score'', PFloat float_0_7)]"
      and threshold_key = "''t''" and result_key = "''score''" and v = "PFloat float_0_7"
      and cls = "''score''" and class_keys = "[''cat'', ''score'']" and reg = empty_registry
      and positive_cls = "''m_pos''" and negative_cls = "''m_neg''"
      and counters = "[(''cat'', ''m_cat''), (''score'', ''m_score'')]"]
  by (simp add: transform_response_def search_json.simps)

text \<open>
  Claim C8 as stated fails for the empty string: \<^verbatim>\<open>if threshold_key:\<close> is false
  for it, so a decorator made with \<^verbatim>\<open>threshold_key=""\<close> compares with 0.5 although
  the view does not hold the key \<^verbatim>\<open>""\<close>, and the call records the metric.
\<close>

theorem empty_threshold_key_is_default:
  "threshold_of (Some []) (PDict [(''score'', PFloat float_0_7)]) = Inr (PFloat (1 / 2)) \<and>
   search_json [] (PDict [(''score'', PFloat float_0_7)]) = Inr PNone \<and>
   wrapper FastAPI example_env (CountBinary ''m_pos'' ''m_neg'' ''score'' (Some []))
     (\<lambda>args kwargs. Inr (Plain (PDict [(''score'', PFloat float_0_7)]))) [] [] empty_registry
     = (Inr (Plain (PDict [(''score'', PFloat float_0_7)])), Counter_inc ''m_pos'' empty_registry)"
  by (simp add: transform_response_def search_json.simps float_0_7_def)

subsection \<open>The feature policies read the top level of the view\<close>

lemma gauge_feature_created:
  assumes "gauge_feature ident feature_keys reg0 = (Inr deco, reg1)"
  shows "\<exists>gauges. deco = GaugeFeature gauges feature_keys \<and>
           (\<forall>feature \<in> set feature_keys. dict_get gauges feature = Inr (ident @ ''_'' @ feature))"
proof -
  from assms obtain gauges where
    made: "make_metrics (\<lambda>feature. feature)
            (\<lambda>feature. new_metric GaugeKind (ident @ ''_'' @ feature)
               (''Gauge metric for feature:'' @ feature))
            feature_keys [] reg0 = (Inr gauges, reg1)"
    and deco: "deco = GaugeFeature gauges feature_keys"
    by (auto simp: gauge_feature_def Gauge_def and_then_Inr_iff)
  from make_metrics_created [OF made] deco show ?thesis
    by (auto simp: dict_get_def)
qed

lemma hist_feature_created:
  assumes "hist_feature ident buckets feature_keys reg0 = (Inr deco, reg1)"
  shows "\<exists>hists. deco = HistFeature hists feature_keys \<and>
           (\<forall>feature \<in> set feature_keys. dict_get hists feature = Inr (ident @ ''_'' @ feature))"
proof -
  from assms obtain hists where
    made: "make_metrics (\<lambda>feature. feature)
            (\<lambda>feature. new_metric (HistogramKind buckets) (ident @ ''_'' @ feature)
               (''Histogram for feature:'' @ feature))
            feature_keys [] reg0 = (Inr hists, reg1)"
    and deco: "deco = HistFeature hists feature_keys"
    by (auto simp: hist_feature_def Histogram_def and_then_Inr_iff)
  from make_metrics_created [OF made] deco show ?thesis
    by (auto simp: dict_get_def)
qed

lemma Gauge_set_cases:
  "(set_refuses env v = None \<and>
      Gauge_set env m v reg = (Inr (), reg\<lparr>gauge_value := (gauge_value reg)(m := Some v)\<rparr>)) \<or>
   (\<exists>e. set_refuses env v = Some e \<and> Gauge_set env m v reg = (Inl e, reg))"
  by (cases "set_refuses env v") (auto simp: Gauge_set_def)

lemma Histogram_observe_cases:
  "(observe_refuses env v = None \<and>
      Histogram_observe env m v reg
        = (Inr (), reg\<lparr>observations := (observations reg)(m := observations reg m @ [v])\<rparr>)) \<or>
   (\<exists>e. observe_refuses env v = Some e \<and> Histogram_observe env m v reg = (Inl e, reg))"
  by (cases "observe_refuses env v") (auto simp: Histogram_observe_def)

lemma gauge_feature_loop_absent:
  assumes absent: "map_of kvs feature = None"
    and dict: "\<forall>k \<in> set keys. dict_get gauges k = Inr (ident @ ''_'' @ k)"
    and mem: "feature \<in> set keys"
  shows "(\<exists>e. fst (gauge_feature_loop env gauges (PDict kvs) keys reg) = Inl e) \<and>
         gauge_value (snd (gauge_feature_loop env gauges (PDict kvs) keys reg)) (ident @ ''_'' @ feature)
           = gauge_value reg (ident @ ''_'' @ feature) \<and>
         ((\<forall>k \<in> set (takeWhile (\<lambda>k. k \<noteq> feature) keys).
              \<forall>v. map_of kvs k = Some v \<longrightarrow> set_refuses env v = None) \<longrightarrow>
            fst (gauge_feature_loop env gauges (PDict kvs) keys reg) = Inl KeyError)"
  using dict mem
proof (induction keys arbitrary: reg)
  case Nil
  then show ?case by simp
next
  case (Cons k keys)
  from Cons.prems have g: "dict_get gauges k = Inr (ident @ ''_'' @ k)" by simp
  show ?case
  proof (cases "map_of kvs k")
    case None
    with g show ?thesis by simp
  next
    case (Some v)
    with absent have neq: "k \<noteq> feature" by auto
    with Cons.prems have mem': "feature \<in> set keys" and dict': "\<forall>k \<in> set keys. dict_get gauges k = Inr (ident @ ''_'' @ k)"
      by simp_all
    from Gauge_set_cases [of env v "ident @ ''_'' @ k" reg] show ?thesis
    proof
      assume ok: "set_refuses env v = None \<and>
        Gauge_set env (ident @ ''_'' @ k) v reg
          = (Inr (), reg\<lparr>gauge_value := (gauge_value reg)((ident @ ''_'' @ k) := Some v)\<rparr>)"
      let ?reg' = "reg\<lparr>gauge_value := (gauge_value reg)((ident @ ''_'' @ k) := Some v)\<rparr>"
      have step: "gauge_feature_loop env gauges (PDict kvs) (k # keys) reg
          = gauge_feature_loop env gauges (PDict kvs) keys ?reg'"
        using g Some ok by simp
      have same: "gauge_value ?reg' (ident @ ''_'' @ feature) = gauge_value reg (ident @ ''_'' @ feature)"
        using neq by simp
      from Cons.IH [OF dict' mem', of ?reg'] show ?thesis
        unfolding step same using neq by auto
    next
      assume "\<exists>e. set_refuses env v = Some e \<and> Gauge_set env (ident @ ''_'' @ k) v reg = (Inl e, reg)"
      then obtain e where e: "set_refuses env v = Some e"
        "Gauge_set env (ident @ ''_'' @ k) v reg = (Inl e, reg)" by blast
      have step: "gauge_feature_loop env gauges (PDict kvs) (k # keys) reg = (Inl e, reg)"
        using g Some e by simp
      show ?thesis unfolding step using neq Some e by auto
    qed
  qed
qed

lemma hist_feature_loop_absent:
  assumes absent: "map_of kvs feature = None"
    and dict: "\<forall>k \<in> set keys. dict_get hists k = Inr (ident @ ''_'' @ k)"
    and mem: "feature \<in> set keys"
  shows "(\<exists>e. fst (hist_feature_loop env hists (PDict kvs) keys reg) = Inl e) \<and>
         observations (snd (hist_feature_loop env hists (PDict kvs) keys reg)) (ident @ ''_'' @ feature)
           = observations reg (ident @ ''_'' @ feature) \<and>
         ((\<forall>k \<in> set (takeWhile (\<lambda>k. k \<noteq> feature) keys).
              \<forall>v. map_of kvs k = Some v \<longrightarrow> observe_refuses env v = None) \<longrightarrow>
            fst (hist_feature_loop env hists (PDict kvs) keys reg) = Inl KeyError)"
  using dict mem
proof (induction keys arbitrary: reg)
  case Nil
  then show ?case by simp
next
  case (Cons k keys)
  from Cons.prems have g: "dict_get hists k = Inr (ident @ ''_'' @ k)" by simp
  show ?case
  proof (cases "map_of kvs k")
    case None
    with g show ?thesis by simp
  next
    case (Some v)
    with absent have neq: "k \<noteq> feature" by auto
    with Cons.prems have mem': "feature \<in> set keys" and dict': "\<forall>k \<in> set keys. dict_get hists k = Inr (ident @ ''_'' @ k)"
      by simp_all
    from Histogram_observe_cases [of env v "ident @ ''_'' @ k" reg] show ?thesis
    proof
      assume ok: "observe_refuses env v = None \<and>
        Histogram_observe env (ident @ ''_'' @ k) v reg
          = (Inr (), reg\<lparr>observations := (observations reg)
                ((ident @ ''_'' @ k) := observations reg (ident @ ''_'' @ k) @ [v])\<rparr>)"
      let ?reg' = "reg\<lparr>observations := (observations reg)
                ((ident @ ''_'' @ k) := observations reg (ident @ ''_'' @ k) @ [v])\<rparr>"
      have step: "hist_feature_loop env hists (PDict kvs) (k # keys) reg
          = hist_feature_loop env hists (PDict kvs) keys ?reg'"
        using g Some ok by simp
      have same: "observations ?reg' (ident @ ''_'' @ feature) = observations reg (ident @ ''_'' @ feature)"
        using neq by simp
      from Cons.IH [OF dict' mem', of ?reg'] show ?thesis
        unfolding step same using neq by auto
    next
      assume "\<exists>e. observe_refuses env v = Some e \<and> Histogram_observe env (ident @ ''_'' @ k) v reg = (Inl e, reg)"
      then obtain e where e: "observe_refuses env v = Some e"
        "Histogram_observe env (ident @ ''_'' @ k) v reg = (Inl e, reg)" by blast
      have step: "hist_feature_loop env hists (PDict kvs) (k # keys) reg = (Inl e, reg)"
        using g Some e by simp
      show ?thesis unfolding step using neq Some e by auto
    qed
  qed
qed

lemma count_feature_loop_absent:
  "map_of kvs feature = None \<Longrightarrow> vals \<noteq> [] \<Longrightarrow>
   count_feature_loop env counters feature (PDict kvs) vals reg = (Inl KeyError, reg)"
  by (cases vals) auto

lemma fst_then_return_Inl: "fst m = Inl e \<Longrightarrow> fst (then_return m x) = Inl e"
  by (simp add: then_return_def)

lemma snd_then_return: "snd (then_return m x) = snd m"
  by (cases "fst m") (auto simp: then_return_def)

text \<open>
  Claim C9, as the code has it. The three feature policies read
  \<^verbatim>\<open>request_json[feature]\<close>. Take a call whose handler returns and a request view
  that has no top-level key \<^verbatim>\<open>feature\<close>, whatever it holds deeper. A decorator of
  \<^verbatim>\<open>count_feature\<close> with at least one enumerated value raises \<^verbatim>\<open>KeyError\<close> out of the
  wrapper and leaves the registry as it was (the field is read inside the loop over
  the values). A decorator of \<^verbatim>\<open>gauge_feature\<close> or \<^verbatim>\<open>hist_feature\<close> with \<^verbatim>\<open>feature\<close>
  among its keys raises out of the wrapper and does not update the gauge or histogram
  of that feature; what it raises is \<^verbatim>\<open>KeyError\<close> when the backend accepts the values
  the view holds for the keys enumerated before \<^verbatim>\<open>feature\<close> (a value the backend
  refuses raises the backend's exception before the absent key is read).
\<close>

theorem feature_policies_index_top_level:
  assumes returns: "func args kwargs = Inr resp_obj"
    and view: "transform_request self env kwargs = Inr (PDict request_json)"
    and absent: "map_of request_json feature = None"
  shows
    "(count_feature env ident feature vals reg0 = (Inr deco, reg1) \<and> vals \<noteq> [] \<longrightarrow>
        wrapper self env deco func args kwargs reg = (Inl KeyError, reg)) \<and>
     (gauge_feature ident feature_keys reg0 = (Inr deco, reg1) \<and> feature \<in> set feature_keys \<longrightarrow>
        (\<exists>e. fst (wrapper self env deco func args kwargs reg) = Inl e) \<and>
        gauge_value (snd (wrapper self env deco func args kwargs reg)) (ident @ ''_'' @ feature)
          = gauge_value reg (ident @ ''_'' @ feature) \<and>
        ((\<forall>k \<in> set (takeWhile (\<lambda>k. k \<noteq> feature) feature_keys).
             \<forall>v. map_of request_json k = Some v \<longrightarrow> set_refuses env v = None) \<longrightarrow>
           fst (wrapper self env deco func args kwargs reg) = Inl KeyError)) \<and>
     (hist_feature ident buckets feature_keys reg0 = (Inr deco, reg1) \<and> feature \<in> set feature_keys \<longrightarrow>
        (\<exists>e. fst (wrapper self env deco func args kwargs reg) = Inl e) \<and>
        observations (snd (wrapper self env deco func args kwargs reg)) (ident @ ''_'' @ feature)
          = observations reg (ident @ ''_'' @ feature) \<and>
        ((\<forall>k \<in> set (takeWhile (\<lambda>k. k \<noteq> feature) feature_keys).
             \<forall>v. map_of request_json k = Some v \<longrightarrow> observe_refuses env v = None) \<longrightarrow>
           fst (wrapper self env deco func args kwargs reg) = Inl KeyError))"
proof (intro conjI impI)
  assume "count_feature env ident feature vals reg0 = (Inr deco, reg1) \<and> vals \<noteq> []"
  then obtain counters where "deco = CountFeature counters feature vals" "vals \<noteq> []"
    using count_feature_created by blast
  with returns view absent
  show "wrapper self env deco func args kwargs reg = (Inl KeyError, reg)"
    by (simp add: count_feature_loop_absent)
next
  assume a: "gauge_feature ident feature_keys reg0 = (Inr deco, reg1) \<and> feature \<in> set feature_keys"
  then obtain gauges where deco: "deco = GaugeFeature gauges feature_keys"
    and dict: "\<forall>k \<in> set feature_keys. dict_get gauges k = Inr (ident @ ''_'' @ k)"
    using gauge_feature_created by blast
  from a have mem: "feature \<in> set feature_keys" by simp
  note loop = gauge_feature_loop_absent [OF absent dict mem, of env reg]
  have run: "wrapper self env deco func args kwargs reg
      = then_return (gauge_feature_loop env gauges (PDict request_json) feature_keys reg) resp_obj"
    using returns view by (simp add: deco)
  from loop show "\<exists>e. fst (wrapper self env deco func args kwargs reg) = Inl e"
    unfolding run by (auto dest: fst_then_return_Inl)
  from loop show "gauge_value (snd (wrapper self env deco func args kwargs reg)) (ident @ ''_'' @ feature)
          = gauge_value reg (ident @ ''_'' @ feature)"
    unfolding run by (simp add: snd_then_return)
  assume "\<forall>k \<in> set (takeWhile (\<lambda>k. k \<noteq> feature) feature_keys).
             \<forall>v. map_of request_json k = Some v \<longrightarrow> set_refuses env v = None"
  with loop show "fst (wrapper self env deco func args kwargs reg) = Inl KeyError"
    unfolding run by (auto dest: fst_then_return_Inl)
next
  assume a: "hist_feature ident buckets feature_keys reg0 = (Inr deco, reg1) \<and> feature \<in> set feature_keys"
  then obtain hists where deco: "deco = HistFeature hists feature_keys"
    and dict: "\<forall>k \<in> set feature_keys. dict_get hists k = Inr (ident @ ''_'' @ k)"
    using hist_feature_created by blast
  from a have mem: "feature \<in> set feature_keys" by simp
  note loop = hist_feature_loop_absent [OF absent dict mem, of env reg]
  have run: "wrapper self env deco func args kwargs reg
      = then_return (hist_feature_loop env hists (PDict request_json) feature_keys reg) resp_obj"
    using returns view by (simp add: deco)
  from loop show "\<exists>e. fst (wrapper self env deco func args kwargs reg) = Inl e"
    unfolding run by (auto dest: fst_then_return_Inl)
  from loop show "observations (snd (wrapper self env deco func args kwargs reg)) (ident @ ''_'' @ feature)
          = observations reg (ident @ ''_'' @ feature)"
    unfolding run by (simp add: snd_then_return)
  assume "\<forall>k \<in> set (takeWhile (\<lambda>k. k \<noteq> feature) feature_keys).
             \<forall>v. map_of request_json k = Some v \<longrightarrow> observe_refuses env v = None"
  with loop show "fst (wrapper self env deco func args kwargs reg) = Inl KeyError"
    unfolding run by (auto dest: fst_then_return_Inl)
qed

text \<open>
  The view \<^verbatim>\<open>{"a": 1, "outer": {"f": 5}}\<close> holds \<^verbatim>\<open>f\<close> one level down: the structured
  search finds 5; the three wrappers raise \<^verbatim>\<open>KeyError\<close>, and nothing is recorded for
  \<^verbatim>\<open>f\<close>.
\<close>

theorem feature_policies_index_top_level_witness:
  "search_json ''f'' (PDict [(''a'', PInt 1), (''outer'', PDict [(''f'', PInt 5)])]) = Inr (PInt 5) \<and>
   wrapper FastAPI example_env (CountFeature [(''f_5'', ''m_f_5'')] ''f'' [PInt 5])
     (\<lambda>args kwargs. Inr (Plain PNone)) [] [(''a'', PInt 1), (''outer'', PDict [(''f'', PInt 5)])]
     empty_registry
     = (Inl KeyError, empty_registry) \<and>
   fst (wrapper FastAPI example_env (GaugeFeature [(''a'', ''m_a''), (''f'', ''m_f'')] [''a'', ''f''])
     (\<lambda>args kwargs. Inr (Plain PNone)) [] [(''a'', PInt 1), (''outer'', PDict [(''f'', PInt 5)])]
     empty_registry)
     = Inl KeyError \<and>
   gauge_value (snd (wrapper FastAPI example_env
     (GaugeFeature [(''a'', ''m_a''), (''f'', ''m_f'')] [''a'', ''f''])
     (\<lambda>args kwargs. Inr (Plain PNone)) [] [(''a'', PInt 1), (''outer'', PDict [(''f'', PInt 5)])]
     empty_registry)) ''m_f'' = None \<and>
   fst (wrapper FastAPI example_env (HistFeature [(''a'', ''m_a''), (''f'', ''m_f'')] [''a'', ''f''])
     (\<lambda>args kwargs. Inr (Plain PNone)) [] [(''a'', PInt 1), (''outer'', PDict [(''f'', PInt 5)])]
     empty_registry)
     = Inl KeyError \<and>
   observations (snd (wrapper FastAPI example_env
     (HistFeature [(''a'', ''m_a''), (''f'', ''m_f'')] [''a'', ''f''])
     (\<lambda>args kwargs. Inr (Plain PNone)) [] [(''a'', PInt 1), (''outer'', PDict [(''f'', PInt 5)])]
     empty_registry)) ''m_f'' = []"
proof -
  let ?kw = "[(''a'', PInt 1), (''outer'', PDict [(''f'', PInt 5)])]"
  let ?h = "\<lambda>args kwargs. Inr (Plain PNone) :: exn + resp_obj"
  have view: "transform_request FastAPI example_env ?kw = Inr (PDict ?kw)"
    by (simp add: transform_request_def example_env_def transform_request_to_json_fastapi_def)
  have absent: "map_of ?kw ''f'' = None" by simp
  have returns: "?h [] ?kw = Inr (Plain PNone)" by simp
  have c: "count_feature example_env ''m'' ''f'' [PInt 5] empty_registry
     = (Inr (CountFeature [(''f_5'', ''m_f_5'')] ''f'' [PInt 5]),
        empty_registry\<lparr>registered := [(''m_f_5'', ''Counter for feature and value:f_5'', CounterKind)]\<rparr>)"
    by (simp add: count_feature_def Counter_def new_metric_def empty_registry_def example_env_def
        str_nat.simps)
  have g: "gauge_feature ''m'' [''a'', ''f''] empty_registry
     = (Inr (GaugeFeature [(''a'', ''m_a''), (''f'', ''m_f'')] [''a'', ''f'']),
        empty_registry\<lparr>registered := [(''m_a'', ''Gauge metric for feature:a'', GaugeKind),
          (''m_f'', ''Gauge metric for feature:f'', GaugeKind)]\<rparr>)"
    by (simp add: gauge_feature_def Gauge_def new_metric_def empty_registry_def)
  have h: "hist_feature ''m'' (PList [PInt 1, PInt 10]) [''a'', ''f''] empty_registry
     = (Inr (HistFeature [(''a'', ''m_a''), (''f'', ''m_f'')] [''a'', ''f'']),
        empty_registry\<lparr>registered :=
          [(''m_a'', ''Histogram for feature:a'', HistogramKind (PList [PInt 1, PInt 10])),
           (''m_f'', ''Histogram for feature:f'', HistogramKind (PList [PInt 1, PInt 10]))]\<rparr>)"
    by (simp add: hist_feature_def Histogram_def new_metric_def empty_registry_def)
  note t = feature_policies_index_top_level
      [where func = ?h and args = "[]" and kwargs = ?kw
        and resp_obj = "Plain PNone" and self = FastAPI and env = example_env
        and request_json = ?kw and feature = "''f''" and ident = "''m''"
        and reg = empty_registry and reg0 = empty_registry, OF returns view absent]
  have found: "search_json ''f'' (PDict ?kw) = Inr (PInt 5)"
    by (simp add: search_json.simps)
  have e: "gauge_value empty_registry ''m_f'' = None" "observations empty_registry ''m_f'' = []"
    by (simp_all add: empty_registry_def)
  have accepted: "set_refuses example_env (PInt 1) = None" "observe_refuses example_env (PInt 1) = None"
    by (simp_all add: example_env_def)
  from t [where vals = "[PInt 5]" and deco = "CountFeature [(''f_5'', ''m_f_5'')] ''f'' [PInt 5]"] c
  have 1: "wrapper FastAPI example_env (CountFeature [(''f_5'', ''m_f_5'')] ''f'' [PInt 5])
     ?h [] ?kw empty_registry = (Inl KeyError, empty_registry)"
    by simp
  from t [where feature_keys = "[''a'', ''f'']"
        and deco = "GaugeFeature [(''a'', ''m_a''), (''f'', ''m_f'')] [''a'', ''f'']"] g e accepted
  have 2: "fst (wrapper FastAPI example_env (GaugeFeature [(''a'', ''m_a''), (''f'', ''m_f'')] [''a'', ''f''])
     ?h [] ?kw empty_registry) = Inl KeyError \<and>
     gauge_value (snd (wrapper FastAPI example_env
       (GaugeFeature [(''a'', ''m_a''), (''f'', ''m_f'')] [''a'', ''f''])
     ?h [] ?kw empty_registry)) ''m_f'' = None"
    by simp
  from t [where feature_keys = "[''a'', ''f'']" and buckets = "PList [PInt 1, PInt 10]"
        and deco = "HistFeature [(''a'', ''m_a''), (''f'', ''m_f'')] [''a'', ''f'']"] h e accepted
  have 3: "fst (wrapper FastAPI example_env (HistFeature [(''a'', ''m_a''), (''f'', ''m_f'')] [''a'', ''f''])
     ?h [] ?kw empty_registry) = Inl KeyError \<and>
     observations (snd (wrapper FastAPI example_env
       (HistFeature [(''a'', ''m_a''), (''f'', ''m_f'')] [''a'', ''f''])
     ?h [] ?kw empty_registry)) ''m_f'' = []"
    by simp
  from found 1 2 3 show ?thesis by blast
qed

text \<open>
  Claim C9 as stated fails where the read of the absent key is not reached.
  \<^verbatim>\<open>count_feature\<close> without enumerated values never reads the field, so a view without
  the feature raises nothing and the caller gets the handler's result. And
  \<^verbatim>\<open>gauge_feature\<close> over \<^verbatim>\<open>a\<close>, \<^verbatim>\<open>f\<close> with the view \<^verbatim>\<open>{"a": None}\<close> raises the
  \<^verbatim>\<open>TypeError\<close> of \<^verbatim>\<open>Gauge.set(None)\<close> before it reads \<^verbatim>\<open>f\<close>.
\<close>

theorem feature_read_not_reached:
  "count_feature example_env ''m'' ''f'' [] empty_registry
     = (Inr (CountFeature [] ''f'' []), empty_registry) \<and>
   transform_request FastAPI example_env [] = Inr (PDict []) \<and>
   wrapper FastAPI example_env (CountFeature [] ''f'' [])
     (\<lambda>args kwargs. Inr (Plain PNone)) [] [] empty_registry
     = (Inr (Plain PNone), empty_registry) \<and>
   transform_request FastAPI example_env [(''a'', PNone)] = Inr (PDict [(''a'', PNone)]) \<and>
   wrapper FastAPI example_env (GaugeFeature [(''a'', ''m_a''), (''f'', ''m_f'')] [''a'', ''f''])
     (\<lambda>args kwargs. Inr (Plain PNone)) [] [(''a'', PNone)] empty_registry
     = (Inl TypeError, empty_registry)"
  by (simp add: count_feature_def transform_request_def example_env_def
      transform_request_to_json_fastapi_def dict_get_def Gauge_set_def)

subsection \<open>Values the search does not find\<close>

lemma threshold_of_returns: "\<exists>t. threshold_of threshold_key view = Inr t"
  using search_json_returns by (cases threshold_key) auto

lemma count_classes_loop_skip:
  "count_classes_loop counters threshold resp_json keys reg
     = count_classes_loop counters threshold resp_json
         (filter (\<lambda>k. search_json k resp_json \<noteq> Inr PNone) keys) reg"
proof (induction keys arbitrary: reg)
  case Nil
  then show ?case by simp
next
  case (Cons k keys)
  obtain w where w: "search_json k resp_json = Inr w"
    using search_json_returns by blast
  show ?case
  proof (cases "w = PNone")
    case True
    with w Cons show ?thesis by simp
  next
    case False
    with w Cons show ?thesis
      by (cases "py_gt w threshold"; cases "dict_get counters k") auto
  qed
qed

lemma gauge_output_loop_skip:
  "gauge_output_loop env gauges resp_json keys reg
     = gauge_output_loop env gauges resp_json
         (filter (\<lambda>k. search_json k resp_json \<noteq> Inr PNone) keys) reg"
proof (induction keys arbitrary: reg)
  case Nil
  then show ?case by simp
next
  case (Cons k keys)
  obtain w where w: "search_json k resp_json = Inr w"
    using search_json_returns by blast
  show ?case
  proof (cases "w = PNone")
    case True
    with w Cons show ?thesis by simp
  next
    case False
    show ?thesis
    proof (cases "dict_get gauges k")
      case (Inl e)
      with w False show ?thesis by simp
    next
      case (Inr g)
      with w False Cons show ?thesis
        by (cases "Gauge_set env g w reg"; cases "fst (Gauge_set env g w reg)") auto
    qed
  qed
qed

lemma hist_output_loop_skip:
  "hist_output_loop env hists resp_json keys reg
     = hist_output_loop env hists resp_json
         (filter (\<lambda>k. search_json k resp_json \<noteq> Inr PNone) keys) reg"
proof (induction keys arbitrary: reg)
  case Nil
  then show ?case by simp
next
  case (Cons k keys)
  obtain w where w: "search_json k resp_json = Inr w"
    using search_json_returns by blast
  show ?case
  proof (cases "w = PNone")
    case True
    with w Cons show ?thesis by simp
  next
    case False
    show ?thesis
    proof (cases "dict_get hists k")
      case (Inl e)
      with w False show ?thesis by simp
    next
      case (Inr h)
      with w False Cons show ?thesis
        by (cases "Histogram_observe env h w reg"; cases "fst (Histogram_observe env h w reg)") auto
    qed
  qed
qed

lemma filter_all_absent:
  "\<forall>k \<in> set keys. search_json k resp_json = Inr PNone \<Longrightarrow>
   filter (\<lambda>k. search_json k resp_json \<noteq> Inr PNone) keys = []"
  by (induction keys) auto

text \<open>
  Claim C2, as the code has it. The output policies test \<^verbatim>\<open>if not value is None\<close>
  before they touch a metric. For a call whose handler returns and whose response view
  was derived: \<^verbatim>\<open>count_binary\<close> returns the handler's result and leaves the registry
  unchanged when the result value is absent; \<^verbatim>\<open>count_classes\<close>, \<^verbatim>\<open>gauge_output\<close>,
  \<^verbatim>\<open>hist_output\<close> and \<^verbatim>\<open>hist_output_specific\<close> behave exactly as if the keys whose
  value is absent had not been among their keys, so no metric is updated and no
  exception raised for such a key, and with every value absent they return the
  handler's result and leave the registry unchanged. (The feature policies and the
  feedback policy have no such test; see below.)
\<close>

theorem output_policies_skip_absent:
  assumes returns: "func args kwargs = Inr resp_obj"
    and view: "transform_response self env resp_obj = Inr resp_json"
  shows
    "(search_json result_key resp_json = Inr PNone \<longrightarrow>
        wrapper self env (CountBinary positive_cls negative_cls result_key threshold_key)
          func args kwargs reg = (Inr resp_obj, reg)) \<and>
     wrapper self env (CountClasses counters threshold_key keys) func args kwargs reg
       = wrapper self env
           (CountClasses counters threshold_key
              (filter (\<lambda>k. search_json k resp_json \<noteq> Inr PNone) keys))
           func args kwargs reg \<and>
     wrapper self env (GaugeOutput gauges keys) func args kwargs reg
       = wrapper self env
           (GaugeOutput gauges (filter (\<lambda>k. search_json k resp_json \<noteq> Inr PNone) keys))
           func args kwargs reg \<and>
     wrapper self env (HistOutput hists keys) func args kwargs reg
       = wrapper self env
           (HistOutput hists (filter (\<lambda>k. search_json k resp_json \<noteq> Inr PNone) keys))
           func args kwargs reg \<and>
     wrapper self env (HistOutputSpecific hists keys) func args kwargs reg
       = wrapper self env
           (HistOutputSpecific hists (filter (\<lambda>k. search_json k resp_json \<noteq> Inr PNone) keys))
           func args kwargs reg \<and>
     ((\<forall>k \<in> set keys. search_json k resp_json = Inr PNone) \<longrightarrow>
        wrapper self env (CountClasses counters threshold_key keys) func args kwargs reg
          = (Inr resp_obj, reg) \<and>
        wrapper self env (GaugeOutput gauges keys) func args kwargs reg = (Inr resp_obj, reg) \<and>
        wrapper self env (HistOutput hists keys) func args kwargs reg = (Inr resp_obj, reg) \<and>
        wrapper self env (HistOutputSpecific hists keys) func args kwargs reg
          = (Inr resp_obj, reg))"
proof -
  obtain t where t: "threshold_of threshold_key resp_json = Inr t"
    using threshold_of_returns by blast
  let ?present = "filter (\<lambda>k. search_json k resp_json \<noteq> Inr PNone) keys"
  have binary: "search_json result_key resp_json = Inr PNone \<longrightarrow>
        wrapper self env (CountBinary positive_cls negative_cls result_key threshold_key)
          func args kwargs reg = (Inr resp_obj, reg)"
    using returns view t by simp
  have classes: "wrapper self env (CountClasses counters threshold_key keys) func args kwargs reg
       = wrapper self env (CountClasses counters threshold_key ?present) func args kwargs reg"
    using returns view t count_classes_loop_skip [of counters t resp_json keys reg] by simp
  have gauge: "wrapper self env (GaugeOutput gauges keys) func args kwargs reg
       = wrapper self env (GaugeOutput gauges ?present) func args kwargs reg"
    using returns view gauge_output_loop_skip [of env gauges resp_json keys reg] by simp
  have hist: "wrapper self env (HistOutput hists keys) func args kwargs reg
       = wrapper self env (HistOutput hists ?present) func args kwargs reg"
    using returns view hist_output_loop_skip [of env hists resp_json keys reg] by simp
  have specific: "wrapper self env (HistOutputSpecific hists keys) func args kwargs reg
       = wrapper self env (HistOutputSpecific hists ?present) func args kwargs reg"
    using returns view hist_output_loop_skip [of env hists resp_json keys reg] by simp
  have none: "(\<forall>k \<in> set keys. search_json k resp_json = Inr PNone) \<longrightarrow>
        wrapper self env (CountClasses counters threshold_key keys) func args kwargs reg
          = (Inr resp_obj, reg) \<and>
        wrapper self env (GaugeOutput gauges keys) func args kwargs reg = (Inr resp_obj, reg) \<and>
        wrapper self env (HistOutput hists keys) func args kwargs reg = (Inr resp_obj, reg) \<and>
        wrapper self env (HistOutputSpecific hists keys) func args kwargs reg
          = (Inr resp_obj, reg)"
  proof
    assume "\<forall>k \<in> set keys. search_json k resp_json = Inr PNone"
    then have empty: "?present = []" by (rule filter_all_absent)
    show "wrapper self env (CountClasses counters threshold_key keys) func args kwargs reg
          = (Inr resp_obj, reg) \<and>
        wrapper self env (GaugeOutput gauges keys) func args kwargs reg = (Inr resp_obj, reg) \<and>
        wrapper self env (HistOutput hists keys) func args kwargs reg = (Inr resp_obj, reg) \<and>
        wrapper self env (HistOutputSpecific hists keys) func args kwargs reg
          = (Inr resp_obj, reg)"
      unfolding classes gauge hist specific empty
      using returns view t by simp
  qed
  from binary classes gauge hist specific none show ?thesis by blast
qed

text \<open>
  The response view \<^verbatim>\<open>{"a": 1}\<close>: nothing is recorded for \<^verbatim>\<open>score\<close> or \<^verbatim>\<open>b\<close>, and
  the gauge of \<^verbatim>\<open>a\<close> is set although \<^verbatim>\<open>b\<close> comes first.
\<close>

theorem output_policies_skip_absent_witness:
  "wrapper FastAPI example_env (CountBinary ''m_pos'' ''m_neg'' ''score'' (Some ''t''))
     (\<lambda>args kwargs. Inr (Plain (PDict [(''a'', PInt 1)]))) [] [] empty_registry
     = (Inr (Plain (PDict [(''a'', PInt 1)])), empty_registry) \<and>
   wrapper FastAPI example_env (GaugeOutput [(''a'', ''m_a''), (''b'', ''m_b'')] [''b'', ''a''])
     (\<lambda>args kwargs. Inr (Plain (PDict [(''a'', PInt 1)]))) [] [] empty_registry
     = (Inr (Plain (PDict [(''a'', PInt 1)])),
        empty_registry\<lparr>gauge_value := (gauge_value empty_registry)(''m_a'' := Some (PInt 1))\<rparr>) \<and>
   wrapper FastAPI example_env (CountClasses [(''b'', ''m_b'')] None [''b''])
     (\<lambda>args kwargs. Inr (Plain (PDict [(''a'', PInt 1)]))) [] [] empty_registry
     = (Inr (Plain (PDict [(''a'', PInt 1)])), empty_registry) \<and>
   wrapper FastAPI example_env (HistOutput [(''b'', ''m_b'')] [''b''])
     (\<lambda>args kwargs. Inr (Plain (PDict [(''a'', PInt 1)]))) [] [] empty_registry
     = (Inr (Plain (PDict [(''a'', PInt 1)])), empty_registry) \<and>
   wrapper FastAPI example_env (HistOutputSpecific [(''b'', ''m_b'')] [''b''])
     (\<lambda>args kwargs. Inr (Plain (PDict [(''a'', PInt 1)]))) [] [] empty_registry
     = (Inr (Plain (PDict [(''a'', PInt 1)])), empty_registry)"
  using
    output_policies_skip_absent
      [where func = "\<lambda>args kwargs. Inr (Plain (PDict [(''a'', PInt 1)]))"
        and args = "[]" and kwargs = "[]" and resp_obj = "Plain (PDict [(''a'', PInt 1)])"
        and self = FastAPI and env = example_env and resp_json = "PDict [(''a'', PInt 1)]"
        and result_key = "''score''" and threshold_key = "Some ''t''"
        and positive_cls = "''m_pos''" and negative_cls = "''m_neg''"
        and gauges = "[(''a'', ''m_a''), (''b'', ''m_b'')]" and keys = "[''b'', ''a'']"
        and reg = empty_registry]
    output_policies_skip_absent
      [where func = "\<lambda>args kwargs. Inr (Plain (PDict [(''a'', PInt 1)]))"
        and args = "[]" and kwargs = "[]" and resp_obj = "Plain (PDict [(''a'', PInt 1)])"
        and self = FastAPI and env = example_env and resp_json = "PDict [(''a'', PInt 1)]"
        and threshold_key = None and counters = "[(''b'', ''m_b'')]"
        and hists = "[(''b'', ''m_b'')]" and keys = "[''b'']"
        and reg = empty_registry]
  by (simp add: transform_response_def search_json.simps dict_get_def Gauge_set_def example_env_def)

text \<open>
  Claim C2 as stated fails for the request-side policies. With an empty request view,
  \<^verbatim>\<open>count_feature\<close> over 1, 2, 3 raises \<^verbatim>\<open>KeyError\<close> at \<^verbatim>\<open>request_json[feature]\<close>, and
  \<^verbatim>\<open>count_false_binary_feedback\<close> raises \<^verbatim>\<open>AttributeError\<close> at
  \<^verbatim>\<open>feedback.correctness\<close>, the feedback being \<^verbatim>\<open>None\<close>; the handler had returned.
\<close>

theorem feature_and_feedback_policies_raise_on_absent:
  "wrapper FastAPI example_env
     (CountFeature [(''f_1'', ''m_f_1''), (''f_2'', ''m_f_2''), (''f_3'', ''m_f_3'')] ''f''
        [PInt 1, PInt 2, PInt 3])
     (\<lambda>args kwargs. Inr (Plain PNone)) [] [] empty_registry
     = (Inl KeyError, empty_registry) \<and>
   wrapper FastAPI example_env (CountFalseBinaryFeedback ''m_fp'' ''m_fn'' ''feedback'' None)
     (\<lambda>args kwargs. Inr (Plain PNone)) [] [] empty_registry
     = (Inl AttributeError, empty_registry)"
  by (simp add: transform_request_def example_env_def transform_request_to_json_fastapi_def
      search_json.simps)

section \<open>Construction of the facade\<close>

text \<open>
  An app whose class is neither \<^verbatim>\<open>Flask\<close> nor \<^verbatim>\<open>FastAPI\<close> is refused when the
  instrumentation is constructed.
\<close>

lemma Instrumentation_init_unsupported:
  "class_name \<noteq> ''Flask'' \<Longrightarrow> class_name \<noteq> ''FastAPI'' \<Longrightarrow>
   \<exists>msg. Instrumentation_init class_name = Inl (Exception msg)"
  by (simp add: Instrumentation_init_def)

lemma Instrumentation_init_supported:
  "Instrumentation_init ''Flask'' = Inr Flask \<and> Instrumentation_init ''FastAPI'' = Inr FastAPI"
  by (simp add: Instrumentation_init_def)

end
